theory Spec2Isabelle
  imports Complex_Main "HOL-Library.Word"
begin

section \<open>JavaScript strings\<close>

text \<open>
  A JavaScript string is a sequence of UTF-16 code units, and \<open>length\<close>, \<open>trim\<close>,
  \<open>includes\<close> and \<open>encodeURIComponent\<close> all work on code units. The literals of
  \<^verbatim>\<open>scripts.js\<close> that are plain ASCII are written \<open>js ''...''\<close>; the other literals are
  given code unit by code unit, as the source file holds them.
\<close>

type_synonym code_unit = "16 word"
type_synonym jsstring = "code_unit list"

definition js :: "string \<Rightarrow> jsstring" where
  "js s = map (\<lambda>c. of_nat (of_char c)) s"

text \<open>
  \<open>String.prototype.trim\<close> removes the code points of WhiteSpace and LineTerminator
  (ECMAScript, lexical grammar) from both ends: TAB, VT, FF, the byte order mark, the Unicode
  space separators, and LF, CR, LS, PS. All of them are single code units.
\<close>

definition isWhiteSpace :: "code_unit \<Rightarrow> bool" where
  "isWhiteSpace c \<longleftrightarrow>
     c \<in> set [0x0009, 0x000A, 0x000B, 0x000C, 0x000D, 0x0020, 0x00A0, 0x1680,
               0x2028, 0x2029, 0x202F, 0x205F, 0x3000, 0xFEFF]
     \<or> (0x2000 \<le> c \<and> c \<le> 0x200A)"

definition trimStart :: "jsstring \<Rightarrow> jsstring" where
  "trimStart s = dropWhile isWhiteSpace s"

definition trimEnd :: "jsstring \<Rightarrow> jsstring" where
  "trimEnd s = rev (dropWhile isWhiteSpace (rev s))"

definition trim :: "jsstring \<Rightarrow> jsstring" where
  "trim s = trimEnd (trimStart s)"

text \<open>\<open>s.includes(t)\<close>: \<open>t\<close> occurs in \<open>s\<close> as a run of consecutive code units.\<close>

fun "includes" :: "jsstring \<Rightarrow> jsstring \<Rightarrow> bool" where
  "includes [] t = (t = [])"
| "includes (c # s) t = (take (length t) (c # s) = t \<or> includes s t)"

text \<open>
  \<open>String.prototype.toLowerCase\<close> follows the Unicode case mappings. The model maps the
  letters \<open>A\<close> to \<open>Z\<close> to \<open>a\<close> to \<open>z\<close> and keeps every other code unit, which is what the
  host does on ASCII text; the mappings of letters beyond ASCII are not part of the model.
\<close>

definition asciiLower :: "code_unit \<Rightarrow> code_unit" where
  "asciiLower c = (if 0x41 \<le> c \<and> c \<le> 0x5A then c + 0x20 else c)"

definition toLowerCase :: "jsstring \<Rightarrow> jsstring" where
  "toLowerCase s = map asciiLower s"

section \<open>JavaScript values, numbers and errors\<close>

text \<open>
  \<open>validateLocationInput\<close> returns the value of an \<open>&&\<close> expression, which is one of its
  operands: a string or a boolean. \<open>ToBoolean\<close> is the coercion that \<open>&&\<close> and \<open>!\<close> apply.
\<close>

datatype js_value = JBoolean bool | JString jsstring

fun ToBoolean :: "js_value \<Rightarrow> bool" where
  "ToBoolean (JBoolean b) = b"
| "ToBoolean (JString s) = (s \<noteq> [])"

text \<open>
  A thrown value is an error object with a constructor and a message. The messages of the
  errors that the engine itself raises are those of V8.
\<close>

datatype js_error =
    Error (message: jsstring)
  | TypeError (message: jsstring)
  | URIError (message: jsstring)
  | SyntaxError (message: jsstring)

definition undefinedRead :: "string \<Rightarrow> js_error" where
  \<open>undefinedRead key =
     TypeError (js ''Cannot read properties of undefined (reading '' @ [0x27] @ js key @ [0x27] @ js '')'')\<close>

definition nullRead :: "string \<Rightarrow> js_error" where
  \<open>nullRead key =
     TypeError (js ''Cannot read properties of null (reading '' @ [0x27] @ js key @ [0x27] @ js '')'')\<close>

definition nullWrite :: "string \<Rightarrow> js_error" where
  \<open>nullWrite key =
     TypeError (js ''Cannot set properties of null (setting '' @ [0x27] @ js key @ [0x27] @ js '')'')\<close>

definition uriMalformed :: js_error where
  "uriMalformed = URIError (js ''URI malformed'')"

text \<open>
  A Number is a double: a finite value (a real number here), NaN or an infinity. The sign
  of zero is not kept: \<open>-0\<close> prints as \<open>0\<close>, and nothing else in the program looks at it.
\<close>

datatype number = Finite real | NaN | PosInfinity | NegInfinity

text \<open>
  \<open>Math.round\<close> returns the integer closest to its argument, and the larger one of the two
  when the argument lies halfway between them.
\<close>

definition Math_round :: "number \<Rightarrow> number" where
  "Math_round x = (case x of Finite r \<Rightarrow> Finite (of_int \<lfloor>r + 1 / 2\<rfloor>) | _ \<Rightarrow> x)"

fun decimalDigits :: "nat \<Rightarrow> jsstring" where
  "decimalDigits n =
     (if n < 10 then [0x30 + of_nat n]
      else decimalDigits (n div 10) @ [0x30 + of_nat (n mod 10)])"

declare decimalDigits.simps [simp del]

text \<open>
  \<open>Number::toString\<close>, as a template literal applies it. The program prints integral values
  only (a result of \<open>Math.round\<close>, an HTTP status), and for these the digits are the plain
  decimal ones as long as the magnitude is below \<open>10\<^sup>2\<^sup>1\<close>; from there on the host
  switches to exponent notation, which the model does not follow.
\<close>

definition integerToString :: "int \<Rightarrow> jsstring" where
  "integerToString k = (if k < 0 then js ''-'' @ decimalDigits (nat (- k)) else decimalDigits (nat k))"

definition numberToString :: "number \<Rightarrow> jsstring" where
  "numberToString x =
     (case x of
        Finite r \<Rightarrow> integerToString \<lfloor>r\<rfloor>
      | NaN \<Rightarrow> js ''NaN''
      | PosInfinity \<Rightarrow> js ''Infinity''
      | NegInfinity \<Rightarrow> js ''-Infinity'')"

section \<open>Configuration and constants\<close>

record weather_api_config =
  apiKey :: string
  baseUrl :: string
  options :: string

definition WEATHER_API_CONFIG :: weather_api_config where
  "WEATHER_API_CONFIG =
     \<lparr>apiKey = ''77cd39c3c35e4552b93173121250909'',
      baseUrl = ''https://api.weatherapi.com/v1/current.json'',
      options = ''aqi=no''\<rparr>"

record dom_elements =
  locationInput :: string
  searchButton :: string
  weatherResult :: string
  weatherIcon :: string
  floatingElements :: string
  searchCard :: string
  appHeader :: string
  backgroundElements :: string

definition DOM_ELEMENTS :: dom_elements where
  "DOM_ELEMENTS =
     \<lparr>locationInput = ''location-input'',
      searchButton = ''search-button'',
      weatherResult = ''weather-result'',
      weatherIcon = ''.weather-icon'',
      floatingElements = ''.floating-element'',
      searchCard = ''.search-card'',
      appHeader = ''.app-header'',
      backgroundElements = ''.background-elements''\<rparr>"

record css_classes =
  "show" :: string
  loading :: string
  weatherCondition :: string
  weatherLocation :: string
  weatherTemperature :: string
  errorMessage :: string
  warningMessage :: string

definition CSS_CLASSES :: css_classes where
  "CSS_CLASSES =
     \<lparr>show = ''show'',
      loading = ''loading'',
      weatherCondition = ''weather-condition'',
      weatherLocation = ''weather-location'',
      weatherTemperature = ''weather-temperature'',
      errorMessage = ''error-message'',
      warningMessage = ''warning-message''\<rparr>"

section \<open>Input validation and the request URL\<close>

text \<open>
  \<^verbatim>\<open>return location && location.trim().length > 0;\<close>
  The \<open>&&\<close> yields its left operand when that is falsy, and its right operand otherwise.
\<close>

definition validateLocationInput :: "jsstring \<Rightarrow> js_value" where
  "validateLocationInput loc =
     (if \<not> ToBoolean (JString loc) then JString loc
      else JBoolean (length (trim loc) > 0))"

text \<open>
  \<open>encodeURIComponent\<close> (ECMAScript, the abstract operation Encode): a code unit of the unreserved set
  is kept; any other code point is written as the \<open>%XX\<close> escapes of its UTF-8 octets; a
  surrogate code unit that is not part of a pair raises a URIError.
\<close>

definition uriUnreserved :: "code_unit \<Rightarrow> bool" where
  "uriUnreserved c \<longleftrightarrow>
     (0x41 \<le> c \<and> c \<le> 0x5A) \<or> (0x61 \<le> c \<and> c \<le> 0x7A) \<or> (0x30 \<le> c \<and> c \<le> 0x39)
     \<or> c \<in> set (js ''-_.!~*'()'')"

definition isLeadSurrogate :: "code_unit \<Rightarrow> bool" where
  "isLeadSurrogate c \<longleftrightarrow> 0xD800 \<le> c \<and> c \<le> 0xDBFF"

definition isTrailSurrogate :: "code_unit \<Rightarrow> bool" where
  "isTrailSurrogate c \<longleftrightarrow> 0xDC00 \<le> c \<and> c \<le> 0xDFFF"

definition codePoint :: "code_unit \<Rightarrow> code_unit \<Rightarrow> nat" where
  "codePoint lead trail = (unat lead - 0xD800) * 0x400 + (unat trail - 0xDC00) + 0x10000"

definition utf8 :: "nat \<Rightarrow> nat list" where
  "utf8 cp =
     (if cp < 0x80 then [cp]
      else if cp < 0x800 then [0xC0 + cp div 0x40, 0x80 + cp mod 0x40]
      else if cp < 0x10000 then
        [0xE0 + cp div 0x1000, 0x80 + cp div 0x40 mod 0x40, 0x80 + cp mod 0x40]
      else
        [0xF0 + cp div 0x40000, 0x80 + cp div 0x1000 mod 0x40, 0x80 + cp div 0x40 mod 0x40,
         0x80 + cp mod 0x40])"

definition hexDigit :: "nat \<Rightarrow> code_unit" where
  "hexDigit d = js ''0123456789ABCDEF'' ! d"

definition percentEncode :: "nat list \<Rightarrow> jsstring" where
  "percentEncode octets =
     concat (map (\<lambda>b. [0x25, hexDigit (b div 16), hexDigit (b mod 16)]) octets)"

fun encodeURIComponent :: "jsstring \<Rightarrow> js_error + jsstring" where
  "encodeURIComponent [] = Inr []"
| "encodeURIComponent (c # s) =
     (if uriUnreserved c then
        (case encodeURIComponent s of Inl e \<Rightarrow> Inl e | Inr r \<Rightarrow> Inr (c # r))
      else if isLeadSurrogate c then
        (case s of
           [] \<Rightarrow> Inl uriMalformed
         | d # s' \<Rightarrow>
             if isTrailSurrogate d then
               (case encodeURIComponent s' of
                  Inl e \<Rightarrow> Inl e
                | Inr r \<Rightarrow> Inr (percentEncode (utf8 (codePoint c d)) @ r))
             else Inl uriMalformed)
      else if isTrailSurrogate c then Inl uriMalformed
      else
        (case encodeURIComponent s of
           Inl e \<Rightarrow> Inl e
         | Inr r \<Rightarrow> Inr (percentEncode (utf8 (unat c)) @ r)))"

text \<open>\<open>String.prototype.isWellFormed\<close>: no surrogate code unit stands outside a pair.\<close>

fun isWellFormed :: "jsstring \<Rightarrow> bool" where
  "isWellFormed [] = True"
| "isWellFormed (c # s) =
     (if isLeadSurrogate c then
        (case s of [] \<Rightarrow> False | d # s' \<Rightarrow> isTrailSurrogate d \<and> isWellFormed s')
      else \<not> isTrailSurrogate c \<and> isWellFormed s)"

text \<open>
  \<^verbatim>\<open>const encodedLocation = encodeURIComponent(location.trim());\<close>
  \<^verbatim>\<open>return `${baseUrl}?key=${apiKey}&q=${encodedLocation}&${options}`;\<close>
\<close>

definition buildWeatherApiUrl :: "jsstring \<Rightarrow> js_error + jsstring" where
  "buildWeatherApiUrl loc =
     (case encodeURIComponent (trim loc) of
        Inl e \<Rightarrow> Inl e
      | Inr encodedLocation \<Rightarrow>
          Inr (js (baseUrl WEATHER_API_CONFIG) @ js ''?key='' @ js (apiKey WEATHER_API_CONFIG)
               @ js ''&q='' @ encodedLocation @ js ''&'' @ js (options WEATHER_API_CONFIG)))"

text \<open>The code units that may stand in a URL component as they are, and the escape sign.\<close>

definition urlSafe :: "code_unit \<Rightarrow> bool" where
  "urlSafe c \<longleftrightarrow> uriUnreserved c \<or> c = 0x25"

section \<open>The weather response and its formatting\<close>

text \<open>
  The parsed body is read through \<open>weatherData.current.temp_c\<close>,
  \<open>weatherData.current.condition.text\<close>, \<open>weatherData.location.name\<close> and
  \<open>weatherData.location.country\<close>. Each of these properties may be missing
  (\<open>undefined\<close>), \<open>null\<close>, or present; a present one has the type the weather service
  documents (values of another type are outside the model).
\<close>

datatype 'a field = Absent | Null | Present 'a

record condition_obj =
  "text" :: "jsstring field"

record current_obj =
  temp_c :: "number field"
  condition :: "condition_obj field"

record location_obj =
  name :: "jsstring field"
  country :: "jsstring field"

record weatherData =
  current :: "current_obj field"
  location :: "location_obj field"

text \<open>
  Reading the property \<open>key\<close> of \<open>base\<close> needs \<open>base\<close> to be an object: on \<open>undefined\<close>
  and on \<open>null\<close> the engine raises a TypeError.
\<close>

fun requireObject :: "'a field \<Rightarrow> string \<Rightarrow> js_error + 'a" where
  "requireObject Absent key = Inl (undefinedRead key)"
| "requireObject Null key = Inl (nullRead key)"
| "requireObject (Present obj) key = Inr obj"

fun ToNumber :: "number field \<Rightarrow> number" where
  "ToNumber Absent = NaN"
| "ToNumber Null = Finite 0"
| "ToNumber (Present x) = x"

fun ToString :: "jsstring field \<Rightarrow> jsstring" where
  "ToString Absent = js ''undefined''"
| "ToString Null = js ''null''"
| "ToString (Present s) = s"

text \<open>
  The string literals that \<open>getWeatherEmoji\<close> returns, in the order of its branches, with
  the code units the source file has between the quotes.
\<close>

definition sunnyEmoji :: jsstring where
  "sunnyEmoji = [0x201A, 0xF2, 0xC4, 0xD4, 0x220F, 0xE8]"

definition cloudEmoji :: jsstring where
  "cloudEmoji = [0x201A, 0xF2, 0xC5, 0xD4, 0x220F, 0xE8]"

definition rainEmoji :: jsstring where
  "rainEmoji = [0xF8FF, 0xFC, 0xE5, 0xDF, 0xD4, 0x220F, 0xE8]"

definition snowEmoji :: jsstring where
  "snowEmoji = [0x201A, 0xF9, 0xD1, 0xD4, 0x220F, 0xE8]"

definition thunderEmoji :: jsstring where
  "thunderEmoji = [0x201A, 0xF5, 0xE0, 0xD4, 0x220F, 0xE8]"

definition fogEmoji :: jsstring where
  "fogEmoji = [0xF8FF, 0xFC, 0xE5, 0xB4, 0xD4, 0x220F, 0xE8]"

definition windEmoji :: jsstring where
  "windEmoji = [0xF8FF, 0xFC, 0xED, 0xAE]"

definition defaultEmoji :: jsstring where
  "defaultEmoji = [0xF8FF, 0xFC, 0xE5, 0xA7, 0xD4, 0x220F, 0xE8]"

definition getWeatherEmoji :: "jsstring field \<Rightarrow> js_error + jsstring" where
  "getWeatherEmoji cond =
     (case requireObject cond ''toLowerCase'' of
        Inl e \<Rightarrow> Inl e
      | Inr c \<Rightarrow>
          let conditionLower = toLowerCase c in
          Inr (if includes conditionLower (js ''sunny'') \<or> includes conditionLower (js ''clear'')
               then sunnyEmoji
               else if includes conditionLower (js ''cloud'') then cloudEmoji
               else if includes conditionLower (js ''rain'')
                       \<or> includes conditionLower (js ''drizzle'')
               then rainEmoji
               else if includes conditionLower (js ''snow'') then snowEmoji
               else if includes conditionLower (js ''thunder'')
                       \<or> includes conditionLower (js ''storm'')
               then thunderEmoji
               else if includes conditionLower (js ''fog'') \<or> includes conditionLower (js ''mist'')
               then fogEmoji
               else if includes conditionLower (js ''wind'') then windEmoji
               else defaultEmoji))"

text \<open>
  The keyword table that the chain of tests in \<open>getWeatherEmoji\<close> amounts to, and the table
  with the category names as the specification lists them. \<open>firstMatch\<close> returns the entry
  of the first row one of whose keywords occurs in the text.
\<close>

fun firstMatch :: "(jsstring list \<times> jsstring) list \<Rightarrow> jsstring \<Rightarrow> jsstring \<Rightarrow> jsstring" where
  "firstMatch [] fallback s = fallback"
| "firstMatch ((keywords, emoji) # table) fallback s =
     (if list_ex (includes s) keywords then emoji else firstMatch table fallback s)"

definition emojiTable :: "(jsstring list \<times> jsstring) list" where
  "emojiTable =
     [([js ''sunny'', js ''clear''], sunnyEmoji),
      ([js ''cloud''], cloudEmoji),
      ([js ''rain'', js ''drizzle''], rainEmoji),
      ([js ''snow''], snowEmoji),
      ([js ''thunder'', js ''storm''], thunderEmoji),
      ([js ''fog'', js ''mist''], fogEmoji),
      ([js ''wind''], windEmoji)]"

definition spec_emojiTable :: "(jsstring list \<times> jsstring) list" where
  "spec_emojiTable =
     [([js ''clear'', js ''sunny''], sunnyEmoji),
      ([js ''cloudy''], cloudEmoji),
      ([js ''rain'', js ''drizzle''], rainEmoji),
      ([js ''snow''], snowEmoji),
      ([js ''thunder'', js ''storm''], thunderEmoji),
      ([js ''fog'', js ''mist''], fogEmoji),
      ([js ''windy''], windEmoji)]"

definition spec_getWeatherEmoji :: "jsstring \<Rightarrow> jsstring" where
  "spec_getWeatherEmoji c = firstMatch spec_emojiTable defaultEmoji (toLowerCase c)"

text \<open>
  \<open>formatWeatherDisplay\<close>, statement by statement; the template literal is given with its
  line breaks and indentation.
\<close>

definition formatWeatherDisplay :: "weatherData \<Rightarrow> js_error + jsstring" where
  \<open>formatWeatherDisplay data =
     (case requireObject (current data) ''temp_c'' of
        Inl e \<Rightarrow> Inl e
      | Inr cur \<Rightarrow>
          let temperature = Math_round (ToNumber (temp_c cur)) in
          (case requireObject (condition cur) ''text'' of
             Inl e \<Rightarrow> Inl e
           | Inr cnd \<Rightarrow>
               let cond = text cnd in
               (case requireObject (location data) ''name'' of
                  Inl e \<Rightarrow> Inl e
                | Inr loc \<Rightarrow>
                    let locationName = ToString (name loc) @ js '', '' @ ToString (country loc) in
                    (case getWeatherEmoji cond of
                       Inl e \<Rightarrow> Inl e
                     | Inr icon \<Rightarrow>
                         Inr (js ''\<newline>        <div class="'' @ js (weatherLocation CSS_CLASSES)
                              @ js ''">\<newline>            '' @ [0xF8FF, 0xFC, 0xE5, 0xE7]
                              @ js '' <strong>'' @ locationName
                              @ js ''</strong>\<newline>        </div>\<newline>        <div class="''
                              @ js (weatherTemperature CSS_CLASSES)
                              @ js ''">\<newline>            '' @ numberToString temperature
                              @ [0xAC, 0x221E] @ js ''C\<newline>        </div>\<newline>        <div class="''
                              @ js (weatherCondition CSS_CLASSES)
                              @ js ''">\<newline>            '' @ icon @ js '' '' @ ToString cond
                              @ js ''\<newline>        </div>\<newline>    '')))))\<close>

text \<open>A response with every property present.\<close>

definition weatherResponse :: "real \<Rightarrow> jsstring \<Rightarrow> jsstring \<Rightarrow> jsstring \<Rightarrow> weatherData" where
  "weatherResponse t c n k =
     \<lparr>current = Present \<lparr>temp_c = Present (Finite t), condition = Present \<lparr>text = Present c\<rparr>\<rparr>,
      location = Present \<lparr>name = Present n, country = Present k\<rparr>\<rparr>"

section \<open>The page\<close>

text \<open>
  The state that the functions of \<^verbatim>\<open>scripts.js\<close> read and change: the three cached element
  references (\<open>None\<close> is \<open>null\<close>), the document, the animations that GSAP runs, the console,
  the requests handed to \<open>fetch\<close>, and the pending timers. An element is identified by its
  id, so that a cached reference and \<open>document.getElementById\<close> reach the same object;
  \<open>document\<close> holds the ids of the elements that are in the page.
\<close>

datatype handler =
    HandleSearchButtonClick
  | HandleLocationInputKeyPress
  | InputFocus
  | InputBlur
  | ButtonMouseEnter
  | ButtonMouseLeave
  | InputMouseEnter
  | InputMouseLeave

datatype content = TextContent jsstring | InnerHTML jsstring

record element =
  "value" :: jsstring
  disabled :: bool
  classList :: "string list"
  content :: content
  listeners :: "(string \<times> handler) list"

text \<open>
  A GSAP target is a selector text, an element, or \<open>null\<close>. Of a tween the model keeps
  the target and the \<open>repeat\<close> count (\<open>-1\<close> repeats forever); the animated properties,
  durations and easings are presentation data.
\<close>

datatype target = Selector string | ElementRef string | NullTarget

record tween =
  targets :: target
  repeat :: int

datatype callback = AnimateWeatherElements | FocusLocationInput

datatype console_call = ConsoleError jsstring "js_error option" | ConsoleLog jsstring

record page =
  locationInputElement :: "string option"
  searchButtonElement :: "string option"
  weatherResultElement :: "string option"
  document :: "string set"
  elements :: "string \<Rightarrow> element"
  tweens :: "tween list"
  console :: "console_call list"
  requests :: "jsstring list"
  timers :: "(callback \<times> nat) list"

text \<open>
  A statement runs on the page and either completes with a value or throws; the page it
  leaves behind is kept in both cases.
\<close>

type_synonym 'a action = "page \<Rightarrow> (js_error + 'a) \<times> page"

definition returns :: "'a \<Rightarrow> 'a action" where
  "returns x st = (Inr x, st)"

definition throws :: "js_error \<Rightarrow> 'a action" where
  "throws e st = (Inl e, st)"

definition fromResult :: "js_error + 'a \<Rightarrow> 'a action" where
  "fromResult r st = (r, st)"

definition modify :: "(page \<Rightarrow> page) \<Rightarrow> unit action" where
  "modify f st = (Inr (), f st)"

definition andThen :: "'a action \<Rightarrow> ('a \<Rightarrow> 'b action) \<Rightarrow> 'b action" where
  "andThen m f st = (case m st of (Inl e, st') \<Rightarrow> (Inl e, st') | (Inr x, st') \<Rightarrow> f x st')"

fun block :: "unit action list \<Rightarrow> unit action" where
  "block [] = returns ()"
| "block (m # ms) = andThen m (\<lambda>_. block ms)"

text \<open>
  \<open>try { body } catch (error) { handler } finally { cleanup }\<close>: the handler runs when the
  body throws, the cleanup runs in every case, and what the statement throws is what the
  cleanup throws or else what the handler throws.
\<close>

definition tryCatchFinally ::
  "unit action \<Rightarrow> (js_error \<Rightarrow> unit action) \<Rightarrow> unit action \<Rightarrow> unit action" where
  "tryCatchFinally body handler cleanup st =
     (let (r1, st1) = body st;
          (r2, st2) = (case r1 of Inl e \<Rightarrow> handler e st1 | Inr u \<Rightarrow> (Inr u, st1));
          (r3, st3) = cleanup st2
      in (case r3 of Inl e \<Rightarrow> (Inl e, st3) | Inr u \<Rightarrow> (r2, st3)))"

subsection \<open>DOM, console, timers and GSAP\<close>

definition getElementById :: "string \<Rightarrow> page \<Rightarrow> string option" where
  "getElementById elementId st = (if elementId \<in> document st then Some elementId else None)"

definition updateElement :: "string \<Rightarrow> (element \<Rightarrow> element) \<Rightarrow> page \<Rightarrow> page" where
  "updateElement i f st = st\<lparr>elements := (elements st)(i := f (elements st i))\<rparr>"

text \<open>
  A property access or method call on an element reference; on \<open>null\<close> it throws the
  TypeError given. \<open>onGlobal\<close> reads one of the cached references at that moment.
\<close>

definition onElement :: "string option \<Rightarrow> js_error \<Rightarrow> (element \<Rightarrow> element) \<Rightarrow> unit action" where
  "onElement ref err f st =
     (case ref of None \<Rightarrow> (Inl err, st) | Some i \<Rightarrow> (Inr (), updateElement i f st))"

definition onGlobal ::
  "(page \<Rightarrow> string option) \<Rightarrow> js_error \<Rightarrow> (element \<Rightarrow> element) \<Rightarrow> unit action" where
  "onGlobal var err f st = onElement (var st) err f st"

definition classList_add :: "string \<Rightarrow> element \<Rightarrow> element" where
  "classList_add c el = (if c \<in> set (classList el) then el else el\<lparr>classList := classList el @ [c]\<rparr>)"

definition classList_remove :: "string \<Rightarrow> element \<Rightarrow> element" where
  "classList_remove c el = el\<lparr>classList := removeAll c (classList el)\<rparr>"

definition addEventListener :: "string \<Rightarrow> handler \<Rightarrow> element \<Rightarrow> element" where
  "addEventListener ev h el =
     (if (ev, h) \<in> set (listeners el) then el else el\<lparr>listeners := listeners el @ [(ev, h)]\<rparr>)"

definition console_error :: "jsstring \<Rightarrow> js_error option \<Rightarrow> unit action" where
  "console_error msg err = modify (\<lambda>st. st\<lparr>console := console st @ [ConsoleError msg err]\<rparr>)"

definition console_log :: "jsstring \<Rightarrow> unit action" where
  "console_log msg = modify (\<lambda>st. st\<lparr>console := console st @ [ConsoleLog msg]\<rparr>)"

definition setTimeout :: "callback \<Rightarrow> nat \<Rightarrow> unit action" where
  "setTimeout cb delay = modify (\<lambda>st. st\<lparr>timers := timers st @ [(cb, delay)]\<rparr>)"

definition elementTarget :: "string option \<Rightarrow> target" where
  "elementTarget ref = (case ref of None \<Rightarrow> NullTarget | Some i \<Rightarrow> ElementRef i)"

text \<open>
  \<open>gsap.to\<close> starts a tween, unless the target is \<open>null\<close> (GSAP then warns and animates
  nothing); \<open>gsap.set\<close> applies its values at once and leaves no tween;
  \<open>gsap.killTweensOf\<close> stops the tweens of its target.
\<close>

definition gsap_to :: "target \<Rightarrow> int \<Rightarrow> unit action" where
  "gsap_to t r =
     modify (\<lambda>st. if t = NullTarget then st
                  else st\<lparr>tweens := tweens st @ [\<lparr>targets = t, repeat = r\<rparr>]\<rparr>)"

definition gsap_set :: "target \<Rightarrow> unit action" where
  "gsap_set t = returns ()"

definition gsap_killTweensOf :: "target \<Rightarrow> unit action" where
  "gsap_killTweensOf t = modify (\<lambda>st. st\<lparr>tweens := filter (\<lambda>tw. targets tw \<noteq> t) (tweens st)\<rparr>)"

subsection \<open>Animations\<close>

definition animateFloatingElements :: "unit action" where
  "animateFloatingElements =
     block [gsap_to (Selector ''.floating-element-1'') (- 1),
            gsap_to (Selector ''.floating-element-2'') (- 1),
            gsap_to (Selector ''.floating-element-3'') (- 1)]"

definition initializePageAnimations :: "unit action" where
  "initializePageAnimations =
     block [gsap_set (Selector (appHeader DOM_ELEMENTS)),
            gsap_set (Selector (searchCard DOM_ELEMENTS)),
            gsap_set (Selector (floatingElements DOM_ELEMENTS)),
            gsap_to (Selector (appHeader DOM_ELEMENTS)) 0,
            gsap_to (Selector (searchCard DOM_ELEMENTS)) 0,
            gsap_to (Selector (floatingElements DOM_ELEMENTS)) 0,
            animateFloatingElements]"

definition animateWeatherIcon :: "unit action" where
  "animateWeatherIcon = gsap_to (Selector (weatherIcon DOM_ELEMENTS)) (- 1)"

definition animateButtonLoading :: "bool \<Rightarrow> unit action" where
  "animateButtonLoading isLoading =
     (if isLoading then
        block [onGlobal searchButtonElement (nullRead ''classList'')
                 (classList_add (loading CSS_CLASSES)),
               gsap_to (Selector ''.loader-dot'') (- 1),
               (\<lambda>st. gsap_to (elementTarget (searchButtonElement st)) 0 st)]
      else
        block [onGlobal searchButtonElement (nullRead ''classList'')
                 (classList_remove (loading CSS_CLASSES)),
               gsap_killTweensOf (Selector ''.loader-dot''),
               (\<lambda>st. gsap_to (elementTarget (searchButtonElement st)) 0 st)])"

definition animateWeatherResult :: "unit action" where
  "animateWeatherResult st =
     (let resultCard = getElementById ''weather-result'' st in
      block [gsap_set (elementTarget resultCard),
             gsap_to (elementTarget resultCard) 0,
             onElement resultCard (nullRead ''classList'') (classList_add (show CSS_CLASSES))] st)"

definition setupInputAnimations :: "unit action" where
  "setupInputAnimations =
     block [onGlobal locationInputElement (nullRead ''addEventListener'')
              (addEventListener ''focus'' InputFocus),
            onGlobal locationInputElement (nullRead ''addEventListener'')
              (addEventListener ''blur'' InputBlur)]"

definition setupHoverAnimations :: "unit action" where
  "setupHoverAnimations =
     block [onGlobal searchButtonElement (nullRead ''addEventListener'')
              (addEventListener ''mouseenter'' ButtonMouseEnter),
            onGlobal searchButtonElement (nullRead ''addEventListener'')
              (addEventListener ''mouseleave'' ButtonMouseLeave),
            onGlobal locationInputElement (nullRead ''addEventListener'')
              (addEventListener ''mouseenter'' InputMouseEnter),
            onGlobal locationInputElement (nullRead ''addEventListener'')
              (addEventListener ''mouseleave'' InputMouseLeave)]"

subsection \<open>Utility functions\<close>

definition getElementByIdSafely :: "string \<Rightarrow> string option action" where
  "getElementByIdSafely elementId st =
     (let el = getElementById elementId st in
      if el = None then
        (Inr el,
         st\<lparr>console := console st
              @ [ConsoleError (js ''Element with ID '' @ [0x27] @ js elementId @ [0x27]
                               @ js '' not found'') None]\<rparr>)
      else (Inr el, st))"

definition displayMessage :: "jsstring \<Rightarrow> string \<Rightarrow> unit action" where
  "displayMessage msg messageType st =
     (if weatherResultElement st = None then returns () st
      else
        block [onGlobal weatherResultElement (nullWrite ''className'')
                 (\<lambda>el. el\<lparr>classList := [''weather-result-card'']\<rparr>),
               (if messageType = ''error'' then
                  onGlobal weatherResultElement (nullRead ''classList'')
                    (classList_add (errorMessage CSS_CLASSES))
                else if messageType = ''warning'' then
                  onGlobal weatherResultElement (nullRead ''classList'')
                    (classList_add (warningMessage CSS_CLASSES))
                else returns ()),
               onGlobal weatherResultElement (nullWrite ''textContent'')
                 (\<lambda>el. el\<lparr>content := TextContent msg\<rparr>),
               animateWeatherResult] st)"

definition showWeatherResult :: "unit action" where
  "showWeatherResult st =
     (if weatherResultElement st = None then returns () st else animateWeatherResult st)"

section \<open>The fetch client\<close>

text \<open>
  The network is the environment: it answers a request for a URL with a rejection or with
  a response, and \<open>response.json()\<close> yields the parsed body or rejects. \<open>response.ok\<close> is
  true for the statuses 200 to 299 (Fetch standard).
\<close>

record response =
  status :: nat
  json :: "js_error + weatherData"

type_synonym network = "jsstring \<Rightarrow> js_error + response"

definition ok :: "response \<Rightarrow> bool" where
  "ok r \<longleftrightarrow> 200 \<le> status r \<and> status r \<le> 299"

definition fetch :: "network \<Rightarrow> jsstring \<Rightarrow> response action" where
  "fetch net url st = (net url, st\<lparr>requests := requests st @ [url]\<rparr>)"

definition fetchWeatherData :: "network \<Rightarrow> jsstring \<Rightarrow> weatherData action" where
  "fetchWeatherData net loc =
     andThen (fromResult (buildWeatherApiUrl loc)) (\<lambda>apiUrl.
     andThen (fetch net apiUrl) (\<lambda>response.
       if \<not> ok response then
         throws (Error (js ''Weather data not available (''
                        @ numberToString (Finite (of_nat (status response))) @ js '')''))
       else fromResult (json response)))"

section \<open>The main weather function\<close>

text \<open>
  The two message literals of \<open>getWeatherInformation\<close> start with the code units that the
  source file has in front of the ASCII text.
\<close>

definition warningText :: jsstring where
  "warningText = [0x201A, 0xF6, 0x2020, 0xD4, 0x220F, 0xE8] @ js '' Please enter a location.''"

definition errorPrefix :: jsstring where
  "errorPrefix = [0x201A, 0xF9, 0xE5] @ js '' Error: ''"

definition getWeatherInformation :: "network \<Rightarrow> unit action" where
  "getWeatherInformation net st =
     (case locationInputElement st of
        None \<Rightarrow> (Inl (nullRead ''value''), st)
      | Some i \<Rightarrow>
          let locationInput = trim (value (elements st i)) in
          if \<not> ToBoolean (validateLocationInput locationInput) then
            displayMessage warningText ''warning'' st
          else
            tryCatchFinally
              (block [onGlobal searchButtonElement (nullWrite ''disabled'')
                        (\<lambda>el. el\<lparr>disabled := True\<rparr>),
                      animateButtonLoading True,
                      gsap_to (Selector (searchCard DOM_ELEMENTS)) 3,
                      andThen (fetchWeatherData net locationInput) (\<lambda>data.
                      andThen (fromResult (formatWeatherDisplay data)) (\<lambda>formattedWeatherHtml.
                        block [onGlobal weatherResultElement (nullWrite ''innerHTML'')
                                 (\<lambda>el. el\<lparr>content := InnerHTML formattedWeatherHtml\<rparr>),
                               showWeatherResult,
                               setTimeout AnimateWeatherElements 300]))])
              (\<lambda>error.
                 block [console_error (js ''Weather fetch error:'') (Some error),
                        displayMessage (errorPrefix @ message error) ''error'',
                        gsap_to (Selector (searchCard DOM_ELEMENTS)) 5])
              (block [onGlobal searchButtonElement (nullWrite ''disabled'')
                        (\<lambda>el. el\<lparr>disabled := False\<rparr>),
                      animateButtonLoading False])
              st)"

text \<open>The loading indicator runs while the button has the loading class or a loader tween lives.\<close>

definition loadingIndicatorRunning :: "page \<Rightarrow> string \<Rightarrow> bool" where
  "loadingIndicatorRunning st button \<longleftrightarrow>
     loading CSS_CLASSES \<in> set (classList (elements st button))
     \<or> list_ex (\<lambda>tw. targets tw = Selector ''.loader-dot'') (tweens st)"

section \<open>Initialization\<close>

definition initializeWeatherApp :: "unit action" where
  "initializeWeatherApp =
     block [andThen (getElementByIdSafely (locationInput DOM_ELEMENTS))
              (\<lambda>el. modify (\<lambda>st. st\<lparr>locationInputElement := el\<rparr>)),
            andThen (getElementByIdSafely (searchButton DOM_ELEMENTS))
              (\<lambda>el. modify (\<lambda>st. st\<lparr>searchButtonElement := el\<rparr>)),
            andThen (getElementByIdSafely (weatherResult DOM_ELEMENTS))
              (\<lambda>el. modify (\<lambda>st. st\<lparr>weatherResultElement := el\<rparr>)),
            (\<lambda>st.
               if locationInputElement st = None \<or> searchButtonElement st = None
                  \<or> weatherResultElement st = None
               then
                 console_error (js ''Required DOM elements not found. App initialization failed.'')
                   None st
               else
                 block [initializePageAnimations,
                        animateWeatherIcon,
                        setupInputAnimations,
                        onGlobal searchButtonElement (nullRead ''addEventListener'')
                          (addEventListener ''click'' HandleSearchButtonClick),
                        onGlobal locationInputElement (nullRead ''addEventListener'')
                          (addEventListener ''keypress'' HandleLocationInputKeyPress),
                        setupHoverAnimations,
                        setTimeout FocusLocationInput 1000,
                        console_log
                          (js ''Modern weather app initialized successfully with GSAP animations'')]
                   st)]"

section \<open>Percent-encoding, by code points\<close>

text \<open>
  The percent-encoded form of a string, said without reference to the order in which
  \<open>encodeURIComponent\<close> works: the string is read as a sequence of Unicode code points (a
  surrogate pair is one code point), and each code point is kept if it is an unreserved
  character and replaced by the \<open>%XX\<close> escapes of its UTF-8 octets otherwise.
\<close>

fun codePoints :: "jsstring \<Rightarrow> nat list" where
  "codePoints [] = []"
| "codePoints [c] = [unat c]"
| "codePoints (c # d # s) =
     (if isLeadSurrogate c \<and> isTrailSurrogate d then codePoint c d # codePoints s
      else unat c # codePoints (d # s))"

definition escapeCodePoint :: "nat \<Rightarrow> jsstring" where
  "escapeCodePoint cp =
     (if cp < 0x80 \<and> uriUnreserved (of_nat cp) then [of_nat cp] else percentEncode (utf8 cp))"

definition percentEncoded :: "jsstring \<Rightarrow> jsstring" where
  "percentEncoded s = concat (map escapeCodePoint (codePoints s))"

section \<open>Reference values\<close>

text \<open>The number that a string of decimal digits denotes.\<close>

definition decimalValue :: "jsstring \<Rightarrow> nat" where
  "decimalValue ds = foldl (\<lambda>a d. 10 * a + (unat d - 0x30)) 0 ds"

text \<open>
  Pages to run the functions on: the page as the browser loads it, with the elements of the
  given ids and nothing cached yet, and the page of the initialized application with a
  text typed into the location field.
\<close>

definition blankElement :: element where
  "blankElement =
     \<lparr>value = [], disabled = False, classList = [], content = TextContent [], listeners = []\<rparr>"

definition loadedPage :: "string set \<Rightarrow> page" where
  "loadedPage ids =
     \<lparr>locationInputElement = None, searchButtonElement = None, weatherResultElement = None,
      document = ids, elements = (\<lambda>_. blankElement), tweens = [], console = [],
      requests = [], timers = []\<rparr>"

definition readyPage :: "jsstring \<Rightarrow> page" where
  "readyPage typed =
     \<lparr>locationInputElement = Some ''location-input'',
      searchButtonElement = Some ''search-button'',
      weatherResultElement = Some ''weather-result'',
      document = {''location-input'', ''search-button'', ''weather-result''},
      elements = (\<lambda>_. blankElement)(''location-input'' := blankElement\<lparr>value := typed\<rparr>),
      tweens = [], console = [], requests = [], timers = []\<rparr>"

text \<open>Three answers of the network: a weather report, a refusal, and a body without weather.\<close>

definition parisResponse :: weatherData where
  "parisResponse = weatherResponse (184 / 10) (js ''Sunny'') (js ''Paris'') (js ''France'')"

definition report :: response where
  "report = \<lparr>status = 200, json = Inr parisResponse\<rparr>"

definition badRequest :: response where
  "badRequest = \<lparr>status = 400, json = Inl (SyntaxError (js ''Unexpected end of JSON input''))\<rparr>"

definition noWeather :: response where
  "noWeather = \<lparr>status = 200, json = Inr \<lparr>current = Absent, location = Absent\<rparr>\<rparr>"

definition netReport :: network where
  "netReport url = Inr report"

definition netBadRequest :: network where
  "netBadRequest url = Inr badRequest"

definition netNoWeather :: network where
  "netNoWeather url = Inr noWeather"

section \<open>Facts about strings\<close>

lemmas trim_defs = trim_def trimStart_def trimEnd_def isWhiteSpace_def

lemma includes_iff: "includes s t \<longleftrightarrow> (\<exists>p q. s = p @ t @ q)"
proof (induction s)
  case Nil
  then show ?case by auto
next
  case (Cons c s)
  have "take (length t) (c # s) = t \<longleftrightarrow> (\<exists>q. c # s = t @ q)"
    by (metis append_eq_conv_conj append_take_drop_id)
  moreover have "(\<exists>p q. c # s = p @ t @ q) \<longleftrightarrow> (\<exists>q. c # s = t @ q) \<or> (\<exists>p q. s = p @ t @ q)"
  proof
    assume "\<exists>p q. c # s = p @ t @ q"
    then obtain p q where pq: "c # s = p @ t @ q" by blast
    show "(\<exists>q. c # s = t @ q) \<or> (\<exists>p q. s = p @ t @ q)"
    proof (cases p)
      case Nil
      with pq show ?thesis by auto
    next
      case (Cons a p')
      with pq have "s = p' @ t @ q" by simp
      then show ?thesis by blast
    qed
  next
    assume "(\<exists>q. c # s = t @ q) \<or> (\<exists>p q. s = p @ t @ q)"
    then show "\<exists>p q. c # s = p @ t @ q"
    proof
      assume "\<exists>q. c # s = t @ q"
      then obtain q where "c # s = [] @ t @ q" by auto
      then show ?thesis by blast
    next
      assume "\<exists>p q. s = p @ t @ q"
      then obtain p q where "c # s = (c # p) @ t @ q" by auto
      then show ?thesis by blast
    qed
  qed
  ultimately show ?case using Cons.IH by simp
qed

lemma includes_mid: "s = p @ t @ q \<Longrightarrow> includes s t"
  by (auto simp: includes_iff)

lemma dropWhile_rev_dropWhile:
  "dropWhile P (rev (dropWhile P (rev (dropWhile P s)))) = rev (dropWhile P (rev (dropWhile P s)))"
proof (cases "dropWhile P s")
  case Nil
  then show ?thesis by (simp del: dropWhile_eq_Nil_conv)
next
  case (Cons a u)
  then have na: "\<not> P a" by (metis hd_dropWhile list.distinct(1) list.sel(1))
  have "rev (dropWhile P (rev (a # u))) \<noteq> []"
    using na by (simp add: dropWhile_append)
  moreover have "hd (rev (dropWhile P (rev (a # u)))) = a"
    using na by (cases "dropWhile P (rev u) = []") (auto simp: dropWhile_append)
  ultimately show ?thesis using na Cons
    by (metis dropWhile.simps(2) list.collapse)
qed

lemma trim_idem: "trim (trim s) = trim s"
  unfolding trim_def trimStart_def trimEnd_def
  by (simp add: dropWhile_rev_dropWhile)

lemma dropWhile_twice_Nil:
  "dropWhile P (rev (dropWhile P s)) = [] \<longleftrightarrow> dropWhile P s = []"
proof
  assume a: "dropWhile P (rev (dropWhile P s)) = []"
  show "dropWhile P s = []"
  proof (rule ccontr)
    assume n: "dropWhile P s \<noteq> []"
    then have "\<not> P (hd (dropWhile P s))" by (rule hd_dropWhile)
    moreover have "hd (dropWhile P s) \<in> set (rev (dropWhile P s))" using n by simp
    ultimately show False using a by (auto simp: dropWhile_eq_Nil_conv)
  qed
next
  assume "dropWhile P s = []"
  then show "dropWhile P (rev (dropWhile P s)) = []" by (simp del: dropWhile_eq_Nil_conv)
qed

text \<open>Trimming leaves nothing exactly when the string is empty or all whitespace.\<close>

lemma trim_Nil_iff: "trim s = [] \<longleftrightarrow> list_all isWhiteSpace s"
  unfolding trim_def trimStart_def trimEnd_def
  by (simp add: dropWhile_twice_Nil list_all_iff del: dropWhile_eq_Nil_conv)
     (simp add: dropWhile_eq_Nil_conv)

text \<open>
  What \<open>trim\<close> returns is the string without a run of whitespace at its start and one at
  its end, and it neither starts nor ends with whitespace.
\<close>

lemma trim_decomposition:
  "\<exists>a b. s = a @ trim s @ b \<and> list_all isWhiteSpace a \<and> list_all isWhiteSpace b"
proof -
  let ?u = "dropWhile isWhiteSpace s"
  have "?u = rev (dropWhile isWhiteSpace (rev ?u)) @ rev (takeWhile isWhiteSpace (rev ?u))"
    by (metis rev_append rev_rev_ident takeWhile_dropWhile_id)
  then have u: "?u = trim s @ rev (takeWhile isWhiteSpace (rev ?u))"
    by (simp add: trim_def trimStart_def trimEnd_def)
  have "s = takeWhile isWhiteSpace s @ ?u" by simp
  with u have "s = takeWhile isWhiteSpace s @ trim s @ rev (takeWhile isWhiteSpace (rev ?u))"
    by simp
  moreover have "list_all isWhiteSpace (takeWhile isWhiteSpace s)"
    by (simp add: list_all_iff) (meson set_takeWhileD)
  moreover have "list_all isWhiteSpace (rev (takeWhile isWhiteSpace (rev ?u)))"
    by (simp add: list_all_iff) (meson set_takeWhileD)
  ultimately show ?thesis by blast
qed

lemma trim_ends:
  assumes "trim s \<noteq> []"
  shows "\<not> isWhiteSpace (hd (trim s)) \<and> \<not> isWhiteSpace (last (trim s))"
proof -
  have "dropWhile isWhiteSpace (trim s) = trim s"
    unfolding trim_def trimStart_def trimEnd_def by (rule dropWhile_rev_dropWhile)
  with assms have "\<not> isWhiteSpace (hd (trim s))"
    by (metis hd_dropWhile)
  moreover have "last (trim s) = hd (dropWhile isWhiteSpace (rev (dropWhile isWhiteSpace s)))"
    using assms unfolding trim_def trimStart_def trimEnd_def by (simp add: last_rev)
  then have "\<not> isWhiteSpace (last (trim s))"
    using assms unfolding trim_def trimStart_def trimEnd_def
    by (metis hd_dropWhile rev_is_Nil_conv)
  ultimately show ?thesis by simp
qed

lemma decimalDigit_unat: "d < 10 \<Longrightarrow> unat (0x30 + of_nat d :: code_unit) = 0x30 + d"
  by (simp add: unat_word_ariths unat_of_nat)

lemma decimalValue_append:
  "decimalValue (ds @ [d]) = 10 * decimalValue ds + (unat d - 0x30)"
  by (simp add: decimalValue_def)

text \<open>The digits that \<open>decimalDigits\<close> writes denote the number.\<close>

lemma decimalValue_decimalDigits: "decimalValue (decimalDigits n) = n"
proof (induction n rule: decimalDigits.induct)
  case (1 n)
  show ?case
  proof (cases "n < 10")
    case True
    then show ?thesis
      by (subst decimalDigits.simps) (simp add: decimalValue_def decimalDigit_unat)
  next
    case False
    with 1 have "decimalValue (decimalDigits (n div 10)) = n div 10" by simp
    moreover have "unat (0x30 + of_nat (n mod 10) :: code_unit) = 0x30 + n mod 10"
      by (rule decimalDigit_unat) simp
    ultimately show ?thesis using False
      by (subst decimalDigits.simps) (simp add: decimalValue_append)
  qed
qed

lemma numberToString_of_nat: "numberToString (Finite (of_nat n)) = decimalDigits n"
  by (simp add: numberToString_def integerToString_def)

section \<open>The input validator\<close>

lemma validateLocationInput_eq:
  "validateLocationInput s = (if s = [] then JString [] else JBoolean (trim s \<noteq> []))"
  by (simp add: validateLocationInput_def)

text \<open>The validator returns \<open>true\<close> exactly for the strings that trimming leaves non-empty.\<close>

lemma validateLocationInput_true_iff:
  "validateLocationInput s = JBoolean True \<longleftrightarrow> 0 < length (trim s)"
proof (cases "s = []")
  case True
  then show ?thesis by (simp add: validateLocationInput_eq trim_defs)
next
  case False
  then show ?thesis by (simp add: validateLocationInput_eq)
qed

text \<open>On a string of one or more whitespace code units it returns \<open>false\<close>.\<close>

lemma validateLocationInput_whitespace:
  "s \<noteq> [] \<Longrightarrow> list_all isWhiteSpace s \<Longrightarrow> validateLocationInput s = JBoolean False"
  by (simp add: validateLocationInput_eq trim_Nil_iff)

text \<open>What a caller that negates the result sees: the result is truthy exactly then.\<close>

lemma ToBoolean_validateLocationInput:
  "ToBoolean (validateLocationInput s) \<longleftrightarrow> trim s \<noteq> []"
proof (cases "s = []")
  case True
  then show ?thesis by (simp add: validateLocationInput_eq trim_defs)
next
  case False
  then show ?thesis by (simp add: validateLocationInput_eq)
qed

text \<open>
  Claim C1. The validator returns \<open>true\<close> only when the trimmed string is non-empty, and
  \<open>false\<close> on every empty or whitespace-only string, without side effects or errors. The
  function is pure and total, and the two lemmas above give the first part and the
  whitespace-only strings. On the empty string, however, the \<open>&&\<close> yields its left operand:
  the function returns the empty string itself, which is falsy but is not the boolean
  \<open>false\<close> that the claim and the function's own documentation (\<open>@returns {boolean}\<close>)
  state.
\<close>

theorem validateLocationInput_empty_string:
  "validateLocationInput [] = JString [] \<and> validateLocationInput [] \<noteq> JBoolean False"
  by (simp add: validateLocationInput_def)

section \<open>The request builder\<close>

lemmas enc_defs = js_def uriUnreserved_def isLeadSurrogate_def isTrailSurrogate_def utf8_def
  percentEncode_def hexDigit_def codePoint_def
lemmas url_defs = buildWeatherApiUrl_def WEATHER_API_CONFIG_def

lemma unreserved_not_surrogate:
  "uriUnreserved c \<Longrightarrow> \<not> isLeadSurrogate c \<and> \<not> isTrailSurrogate c"
  by (auto simp: uriUnreserved_def isLeadSurrogate_def isTrailSurrogate_def js_def word_le_nat_alt)

text \<open>\<open>encodeURIComponent\<close> returns a string exactly on the well-formed strings.\<close>

lemma encodeURIComponent_wellFormed:
  "isWellFormed s \<Longrightarrow> \<exists>r. encodeURIComponent s = Inr r"
proof (induction s rule: encodeURIComponent.induct)
  case 1
  then show ?case by simp
next
  case (2 c s)
  show ?case
  proof (cases "uriUnreserved c")
    case True
    then have "isWellFormed s" using "2.prems" unreserved_not_surrogate by auto
    with True "2.IH"(1) show ?thesis by auto
  next
    case nu: False
    show ?thesis
    proof (cases "isLeadSurrogate c")
      case True
      with "2.prems" obtain d s' where s: "s = d # s'" "isTrailSurrogate d" "isWellFormed s'"
        by (auto split: list.splits)
      with nu True "2.IH"(2) obtain r where "encodeURIComponent s' = Inr r" by blast
      with nu True s show ?thesis by simp
    next
      case False
      with "2.prems" have nt: "\<not> isTrailSurrogate c" and "isWellFormed s" by auto
      with nu False "2.IH"(3) obtain r where "encodeURIComponent s = Inr r" by blast
      with nu False nt show ?thesis by simp
    qed
  qed
qed

lemma encodeURIComponent_malformed:
  "\<not> isWellFormed s \<Longrightarrow> encodeURIComponent s = Inl uriMalformed"
proof (induction s rule: encodeURIComponent.induct)
  case 1
  then show ?case by simp
next
  case (2 c s)
  show ?case
  proof (cases "uriUnreserved c")
    case True
    then have "\<not> isWellFormed s" using "2.prems" unreserved_not_surrogate by auto
    with True "2.IH"(1) show ?thesis by simp
  next
    case nu: False
    show ?thesis
    proof (cases "isLeadSurrogate c")
      case True
      show ?thesis
      proof (cases s)
        case Nil
        with nu True show ?thesis by simp
      next
        case (Cons d s')
        show ?thesis
        proof (cases "isTrailSurrogate d")
          case t: True
          with "2.prems" True Cons have "\<not> isWellFormed s'" by simp
          with nu True Cons t "2.IH"(2) have "encodeURIComponent s' = Inl uriMalformed" by blast
          with nu True Cons t show ?thesis by simp
        next
          case False
          with nu True Cons show ?thesis by simp
        qed
      qed
    next
      case False
      show ?thesis
      proof (cases "isTrailSurrogate c")
        case True
        with nu False show ?thesis by simp
      next
        case nt: False
        with "2.prems" False have "\<not> isWellFormed s" by simp
        with nu False nt "2.IH"(3) have "encodeURIComponent s = Inl uriMalformed" by blast
        with nu False nt show ?thesis by simp
      qed
    qed
  qed
qed

lemma hexDigit_unreserved: "d < 16 \<Longrightarrow> uriUnreserved (hexDigit d)"
proof -
  assume "d < 16"
  then have "d = 0 \<or> d = 1 \<or> d = 2 \<or> d = 3 \<or> d = 4 \<or> d = 5 \<or> d = 6 \<or> d = 7
    \<or> d = 8 \<or> d = 9 \<or> d = 10 \<or> d = 11 \<or> d = 12 \<or> d = 13 \<or> d = 14 \<or> d = 15"
    by presburger
  then show ?thesis
    by (elim disjE) (simp_all add: hexDigit_def js_def uriUnreserved_def)
qed

lemma percentEncode_safe:
  "\<forall>b\<in>set octets. b < 256 \<Longrightarrow> list_all urlSafe (percentEncode octets)"
proof (induction octets)
  case Nil
  then show ?case by (simp add: percentEncode_def)
next
  case (Cons b bs)
  then have "b < 256" by simp
  then have "b div 16 < 16" "b mod 16 < 16" by auto
  then have "urlSafe (hexDigit (b div 16))" "urlSafe (hexDigit (b mod 16))"
    by (simp_all add: urlSafe_def hexDigit_unreserved)
  moreover have "urlSafe 0x25" by (simp add: urlSafe_def)
  moreover have "list_all urlSafe (percentEncode bs)"
    using Cons by simp
  ultimately show ?case
    by (simp add: percentEncode_def)
qed

lemma utf8_octets: "cp < 0x110000 \<Longrightarrow> \<forall>b\<in>set (utf8 cp). b < 256"
  by (auto simp: utf8_def)

lemma codePoint_bound:
  "isLeadSurrogate c \<Longrightarrow> isTrailSurrogate d \<Longrightarrow> codePoint c d < 0x110000"
proof -
  assume "isLeadSurrogate c" "isTrailSurrogate d"
  then have "unat c \<le> 0xDBFF" "unat d \<le> 0xDFFF"
    by (simp_all add: isLeadSurrogate_def isTrailSurrogate_def word_le_nat_alt)
  then show ?thesis by (simp add: codePoint_def)
qed

lemma unat_code_unit: "unat (c :: code_unit) < 0x110000"
  using unsigned_less [of c, where ?'a = nat] by simp

text \<open>
  What it returns holds unreserved characters and \<open>%XX\<close> escapes only: no space and no
  punctuation outside the unreserved set is left in it.
\<close>

lemma encodeURIComponent_safe:
  "encodeURIComponent s = Inr r \<Longrightarrow> list_all urlSafe r"
proof (induction s arbitrary: r rule: encodeURIComponent.induct)
  case 1
  then show ?case by simp
next
  case (2 c s)
  show ?case
  proof (cases "uriUnreserved c")
    case True
    with 2 show ?thesis by (auto simp: urlSafe_def split: sum.splits)
  next
    case nu: False
    show ?thesis
    proof (cases "isLeadSurrogate c")
      case True
      with nu "2.prems" obtain d s' r' where s: "s = d # s'" "isTrailSurrogate d"
        "encodeURIComponent s' = Inr r'" "r = percentEncode (utf8 (codePoint c d)) @ r'"
        by (auto split: list.splits if_splits sum.splits)
      have "list_all urlSafe r'" using "2.IH"(2) nu True s by blast
      moreover have "list_all urlSafe (percentEncode (utf8 (codePoint c d)))"
        using True s(2) by (intro percentEncode_safe utf8_octets codePoint_bound)
      ultimately show ?thesis using s(4) by simp
    next
      case False
      with nu "2.prems" obtain r' where s: "\<not> isTrailSurrogate c"
        "encodeURIComponent s = Inr r'" "r = percentEncode (utf8 (unat c)) @ r'"
        by (auto split: if_splits sum.splits)
      have "list_all urlSafe r'" using "2.IH"(3) nu False s by blast
      moreover have "list_all urlSafe (percentEncode (utf8 (unat c)))"
        by (intro percentEncode_safe utf8_octets unat_code_unit)
      ultimately show ?thesis using s(3) by simp
    qed
  qed
qed

lemma unreserved_ascii: "uriUnreserved c \<Longrightarrow> unat c < 0x80"
  by (auto simp: uriUnreserved_def js_def word_le_nat_alt)

lemma escapeCodePoint_unit:
  "\<not> isLeadSurrogate c \<Longrightarrow> \<not> isTrailSurrogate c \<Longrightarrow>
   escapeCodePoint (unat c) = (if uriUnreserved c then [c] else percentEncode (utf8 (unat c)))"
  by (simp add: escapeCodePoint_def unreserved_ascii)

lemma escapeCodePoint_pair:
  "escapeCodePoint (codePoint c d) = percentEncode (utf8 (codePoint c d))"
  by (simp add: escapeCodePoint_def codePoint_def)

text \<open>On a well-formed string, \<open>encodeURIComponent\<close> returns the percent-encoded form.\<close>

lemma encodeURIComponent_percentEncoded:
  "isWellFormed s \<Longrightarrow> encodeURIComponent s = Inr (percentEncoded s)"
proof (induction s rule: encodeURIComponent.induct)
  case 1
  then show ?case by (simp add: percentEncoded_def)
next
  case (2 c s)
  show ?case
  proof (cases "isLeadSurrogate c")
    case True
    then have nu: "\<not> uriUnreserved c" using unreserved_not_surrogate by blast
    from True "2.prems" obtain d s' where s: "s = d # s'" "isTrailSurrogate d" "isWellFormed s'"
      by (auto split: list.splits)
    with nu True "2.IH"(2) have "encodeURIComponent s' = Inr (percentEncoded s')" by blast
    with nu True s show ?thesis
      by (simp add: percentEncoded_def escapeCodePoint_pair)
  next
    case False
    with "2.prems" have nt: "\<not> isTrailSurrogate c" and wf: "isWellFormed s" by auto
    have cp: "codePoints (c # s) = unat c # codePoints s"
      using False by (cases s) simp_all
    show ?thesis
    proof (cases "uriUnreserved c")
      case True
      with "2.IH"(1) wf have "encodeURIComponent s = Inr (percentEncoded s)" by blast
      with True False nt cp show ?thesis
        by (simp add: percentEncoded_def escapeCodePoint_unit)
    next
      case nu: False
      with "2.IH"(3) False nt wf have "encodeURIComponent s = Inr (percentEncoded s)" by blast
      with nu False nt cp show ?thesis
        by (simp add: percentEncoded_def escapeCodePoint_unit)
    qed
  qed
qed

lemma new_york_encoded: "percentEncoded (js ''New York, NY'') = js ''New%20York%2C%20NY''"
  by (simp add: percentEncoded_def escapeCodePoint_def enc_defs)

lemma globe_encoded: "percentEncoded [0xD83C, 0xDF0D] = js ''%F0%9F%8C%8D''"
  by (simp add: percentEncoded_def escapeCodePoint_def enc_defs)

lemma paris_url:
  "buildWeatherApiUrl (js ''Paris'') =
     Inr (js ''https://api.weatherapi.com/v1/current.json?key=77cd39c3c35e4552b93173121250909&q=Paris&aqi=no'')"
  by (simp add: url_defs enc_defs trim_defs)

lemma paris_query:
  "includes (js ''https://api.weatherapi.com/v1/current.json?key=77cd39c3c35e4552b93173121250909&q=Paris&aqi=no'')
     (js ''q=Paris'')"
  by (simp add: js_def)

lemma buildWeatherApiUrl_wellFormed:
  "isWellFormed (trim loc) \<Longrightarrow>
   buildWeatherApiUrl loc =
     Inr ((js (baseUrl WEATHER_API_CONFIG) @ js ''?key='' @ js (apiKey WEATHER_API_CONFIG)
           @ js ''&q='') @ percentEncoded (trim loc)
          @ (js ''&'' @ js (options WEATHER_API_CONFIG)))"
  by (simp add: buildWeatherApiUrl_def encodeURIComponent_percentEncoded)

text \<open>
  Claim C7, as the code has it. The claim promises a URL for every validated location. A
  string with a surrogate code unit outside a pair (half of an emoji, say) passes the
  validator, and \<open>encodeURIComponent\<close> throws a URIError on it, so that no URL is built.
\<close>

theorem buildWeatherApiUrl_lone_surrogate_counterexample:
  "ToBoolean (validateLocationInput [0xD83C]) \<and> buildWeatherApiUrl [0xD83C] = Inl uriMalformed"
  by (simp add: validateLocationInput_def url_defs enc_defs trim_defs uriMalformed_def)

text \<open>
  Claim C7, amended. For every location whose trimmed form is well-formed UTF-16 (validated
  or not), the URL is the base endpoint, \<open>?key=\<close> and the API key, \<open>&q=\<close> and the
  percent-encoded trimmed location, \<open>&\<close> and the query options; the encoded location is
  what \<open>encodeURIComponent\<close> returns, and consists of unreserved characters and \<open>%XX\<close>
  escapes only, which is how spaces and punctuation are tolerated; and for \<open>Paris\<close> the URL
  contains \<open>q=Paris\<close>.
\<close>

theorem buildWeatherApiUrl_percent_encoded:
  assumes "isWellFormed (trim loc)"
  shows "buildWeatherApiUrl loc =
           Inr (js (baseUrl WEATHER_API_CONFIG) @ js ''?key='' @ js (apiKey WEATHER_API_CONFIG)
                @ js ''&q='' @ percentEncoded (trim loc) @ js ''&''
                @ js (options WEATHER_API_CONFIG))
         \<and> encodeURIComponent (trim loc) = Inr (percentEncoded (trim loc))
         \<and> list_all urlSafe (percentEncoded (trim loc))
         \<and> (\<exists>url. buildWeatherApiUrl (js ''Paris'') = Inr url \<and> includes url (js ''q=Paris''))"
proof -
  have e: "encodeURIComponent (trim loc) = Inr (percentEncoded (trim loc))"
    using assms by (rule encodeURIComponent_percentEncoded)
  then have "list_all urlSafe (percentEncoded (trim loc))"
    by (rule encodeURIComponent_safe)
  moreover have "\<exists>url. buildWeatherApiUrl (js ''Paris'') = Inr url \<and> includes url (js ''q=Paris'')"
    using paris_url paris_query by simp
  moreover have "buildWeatherApiUrl loc =
           Inr (js (baseUrl WEATHER_API_CONFIG) @ js ''?key='' @ js (apiKey WEATHER_API_CONFIG)
                @ js ''&q='' @ percentEncoded (trim loc) @ js ''&''
                @ js (options WEATHER_API_CONFIG))"
    using e by (simp add: buildWeatherApiUrl_def)
  ultimately show ?thesis using e by blast
qed

lemma new_york_wellFormed: "isWellFormed (trim (js '' New York, NY ''))"
  by (simp add: trim_defs js_def isLeadSurrogate_def isTrailSurrogate_def)

theorem buildWeatherApiUrl_percent_encoded_witness:
  "isWellFormed (trim (js '' New York, NY ''))
   \<and> buildWeatherApiUrl (js '' New York, NY '') =
       Inr (js (baseUrl WEATHER_API_CONFIG) @ js ''?key='' @ js (apiKey WEATHER_API_CONFIG)
            @ js ''&q='' @ percentEncoded (trim (js '' New York, NY '')) @ js ''&''
            @ js (options WEATHER_API_CONFIG))"
  using new_york_wellFormed
    buildWeatherApiUrl_percent_encoded [OF new_york_wellFormed, THEN conjunct1]
  by (rule conjI)

text \<open>The URL of the witness, written out.\<close>

lemma new_york_url:
  "buildWeatherApiUrl (js '' New York, NY '') =
     Inr (js ''https://api.weatherapi.com/v1/current.json?key=77cd39c3c35e4552b93173121250909&q=New%20York%2C%20NY&aqi=no'')"
  by (simp add: url_defs enc_defs trim_defs)

text \<open>
  Claim C8, as the code has it. The claim speaks of all non-empty strings. A single space
  is a non-empty string and the validator returns \<open>false\<close> on it; and \<open>A\<close> followed by a
  lone trail surrogate is a non-empty string that the validator accepts and for which the
  request builder throws instead of producing a URL.
\<close>

theorem validator_builder_nonempty_counterexample:
  "validateLocationInput (js '' '') = JBoolean False
   \<and> validateLocationInput [0x41, 0xDC00] = JBoolean True
   \<and> buildWeatherApiUrl [0x41, 0xDC00] = Inl uriMalformed"
  by (simp add: validateLocationInput_def url_defs enc_defs trim_defs uriMalformed_def)

text \<open>
  Claim C8, amended. For every string that is non-empty after trimming, the validator
  returns \<open>true\<close>; and when the trimmed string is well-formed UTF-16, the request builder
  produces a URL that contains the percent-encoded form of the trimmed string.
\<close>

theorem nonblank_validated_and_encoded:
  assumes "trim s \<noteq> []"
  shows "validateLocationInput s = JBoolean True
         \<and> (isWellFormed (trim s) \<longrightarrow>
              (\<exists>url. buildWeatherApiUrl s = Inr url \<and> includes url (percentEncoded (trim s))))"
proof -
  have "validateLocationInput s = JBoolean True"
    using assms by (simp add: validateLocationInput_true_iff)
  moreover have "\<exists>url. buildWeatherApiUrl s = Inr url \<and> includes url (percentEncoded (trim s))"
    if "isWellFormed (trim s)"
  proof -
    note u = buildWeatherApiUrl_wellFormed [OF that]
    have "includes ((js (baseUrl WEATHER_API_CONFIG) @ js ''?key='' @ js (apiKey WEATHER_API_CONFIG)
           @ js ''&q='') @ percentEncoded (trim s)
          @ (js ''&'' @ js (options WEATHER_API_CONFIG))) (percentEncoded (trim s))"
      by (rule includes_mid) (rule refl)
    with u show ?thesis by blast
  qed
  ultimately show ?thesis by blast
qed

lemma paris_nonblank: "trim (js ''Paris'') \<noteq> []"
  by (simp add: trim_defs js_def)

lemma paris_wellFormed: "isWellFormed (trim (js ''Paris''))"
  by (simp add: trim_defs js_def isLeadSurrogate_def isTrailSurrogate_def)

theorem nonblank_validated_and_encoded_witness:
  "trim (js ''Paris'') \<noteq> [] \<and> isWellFormed (trim (js ''Paris''))
   \<and> validateLocationInput (js ''Paris'') = JBoolean True
   \<and> (\<exists>url. buildWeatherApiUrl (js ''Paris'') = Inr url
         \<and> includes url (percentEncoded (trim (js ''Paris''))))"
  using paris_nonblank paris_wellFormed nonblank_validated_and_encoded [OF paris_nonblank]
  by blast

text \<open>
  Claim C10. The builder trims its argument itself before encoding it, so that
  \<open>buildWeatherApiUrl s\<close> and \<open>buildWeatherApiUrl (trim s)\<close> are the same result, a URL
  or the same error.
\<close>

theorem buildWeatherApiUrl_trim: "buildWeatherApiUrl s = buildWeatherApiUrl (trim s)"
  by (simp add: buildWeatherApiUrl_def trim_idem)

theorem buildWeatherApiUrl_trim_witness:
  "buildWeatherApiUrl (js '' New York, NY '') = buildWeatherApiUrl (trim (js '' New York, NY ''))"
  by (rule buildWeatherApiUrl_trim)

section \<open>The fetch client\<close>

lemmas action_defs = returns_def throws_def fromResult_def modify_def andThen_def
  tryCatchFinally_def onElement_def onGlobal_def updateElement_def

lemma fetchWeatherData_not_ok:
  assumes "buildWeatherApiUrl loc = Inr url" and "net url = Inr r" and "\<not> ok r"
  shows "fst (fetchWeatherData net loc st) =
     Inl (Error (js ''Weather data not available ('' @ decimalDigits (status r) @ js '')''))"
  using assms
  by (simp add: fetchWeatherData_def fetch_def action_defs numberToString_of_nat)

lemma fetchWeatherData_ok:
  assumes "buildWeatherApiUrl loc = Inr url" and "net url = Inr r" and "ok r"
  shows "fst (fetchWeatherData net loc st) = json r"
  using assms
  by (simp add: fetchWeatherData_def fetch_def action_defs)

text \<open>
  Claim C2. Let the request for the location's URL be answered by a response \<open>r\<close>. If its
  status is not one of 200 to 299, \<open>fetchWeatherData\<close> throws an \<open>Error\<close> whose message contains
  the decimal digits of the status. If it is, the result is that of \<open>r.json()\<close>: the parsed
  body (or, for a body that is not JSON, the parser's rejection).
\<close>

theorem fetchWeatherData_by_status:
  assumes "buildWeatherApiUrl loc = Inr url" and "net url = Inr r"
  shows "(\<not> ok r \<longrightarrow>
            (\<exists>msg. fst (fetchWeatherData net loc st) = Inl (Error msg)
               \<and> includes msg (decimalDigits (status r))))
         \<and> (ok r \<longrightarrow> fst (fetchWeatherData net loc st) = json r)"
proof (intro conjI impI)
  assume "\<not> ok r"
  with assms have "fst (fetchWeatherData net loc st) =
     Inl (Error (js ''Weather data not available ('' @ decimalDigits (status r) @ js '')''))"
    by (rule fetchWeatherData_not_ok)
  moreover have "includes (js ''Weather data not available ('' @ decimalDigits (status r) @ js '')'')
     (decimalDigits (status r))"
    by (rule includes_mid) (rule refl)
  ultimately show "\<exists>msg. fst (fetchWeatherData net loc st) = Inl (Error msg)
      \<and> includes msg (decimalDigits (status r))"
    by blast
next
  assume "ok r"
  with assms show "fst (fetchWeatherData net loc st) = json r"
    by (rule fetchWeatherData_ok)
qed

lemma badRequest_answer:
  "netBadRequest
     (js ''https://api.weatherapi.com/v1/current.json?key=77cd39c3c35e4552b93173121250909&q=Paris&aqi=no'')
   = Inr badRequest"
  by (simp add: netBadRequest_def)

lemma badRequest_not_ok: "\<not> ok badRequest"
  by (simp add: ok_def badRequest_def)

lemma badRequest_digits: "decimalDigits (status badRequest) = js ''400''"
  by (simp add: badRequest_def decimalDigits.simps js_def)

theorem fetchWeatherData_by_status_witness:
  "buildWeatherApiUrl (js ''Paris'') =
     Inr (js ''https://api.weatherapi.com/v1/current.json?key=77cd39c3c35e4552b93173121250909&q=Paris&aqi=no'')
   \<and> \<not> ok badRequest
   \<and> (\<exists>msg. fst (fetchWeatherData netBadRequest (js ''Paris'') (readyPage (js ''Paris'')))
               = Inl (Error msg)
          \<and> includes msg (decimalDigits (status badRequest)))"
  using paris_url badRequest_not_ok
    fetchWeatherData_by_status [where net = netBadRequest and r = badRequest
      and st = "readyPage (js ''Paris'')", OF paris_url badRequest_answer]
  by blast

text \<open>The message of the witness, written out: it ends in \<open>(400)\<close>.\<close>

lemma badRequest_message:
  "fst (fetchWeatherData netBadRequest (js ''Paris'') st) =
     Inl (Error (js ''Weather data not available (400)''))"
  using fetchWeatherData_not_ok [where net = netBadRequest and r = badRequest and st = st,
      OF paris_url badRequest_answer badRequest_not_ok]
  by (simp add: badRequest_digits js_def)

section \<open>The display formatter\<close>

lemmas lower_defs = toLowerCase_def asciiLower_def
lemmas emoji_defs = sunnyEmoji_def cloudEmoji_def rainEmoji_def snowEmoji_def thunderEmoji_def
  fogEmoji_def windEmoji_def defaultEmoji_def

lemma getWeatherEmoji_firstMatch:
  "getWeatherEmoji (Present c) = Inr (firstMatch emojiTable defaultEmoji (toLowerCase c))"
  by (simp add: getWeatherEmoji_def emojiTable_def Let_def)

lemma firstMatch_fallback:
  "\<not> list_ex (\<lambda>(keywords, emoji). list_ex (includes s) keywords) table
   \<Longrightarrow> firstMatch table fallback s = fallback"
  by (induction table) auto

text \<open>A row wins when one of its keywords occurs and no earlier row has such a keyword.\<close>

lemma firstMatch_first:
  "\<not> list_ex (\<lambda>(keywords, emoji). list_ex (includes s) keywords) before
   \<Longrightarrow> list_ex (includes s) keywords
   \<Longrightarrow> firstMatch (before @ (keywords, emoji) # after) fallback s = emoji"
  by (induction before) auto

lemma wind_code: "getWeatherEmoji (Present (js ''Wind'')) = Inr windEmoji"
  by (simp add: getWeatherEmoji_def Let_def lower_defs js_def)

lemma wind_spec: "spec_getWeatherEmoji (js ''Wind'') = defaultEmoji"
  by (simp add: spec_getWeatherEmoji_def spec_emojiTable_def lower_defs js_def)

text \<open>
  Claim C5, as the code has it. With the keywords that the claim lists, \<open>cloudy\<close> and
  \<open>windy\<close> among them, the condition \<open>Wind\<close> has no keyword and gets the fallback emoji. The
  code tests for \<open>cloud\<close> and \<open>wind\<close>, and returns the wind emoji.
\<close>

theorem getWeatherEmoji_spec_keywords_counterexample:
  "getWeatherEmoji (Present (js ''Wind'')) \<noteq> Inr (spec_getWeatherEmoji (js ''Wind''))"
  by (simp add: wind_code wind_spec) (simp add: emoji_defs)

text \<open>
  Claim C5, amended. For every condition string, \<open>getWeatherEmoji\<close> returns the emoji of the
  first row of the table sunny or clear, cloud, rain or drizzle, snow, thunder or storm, fog
  or mist, wind, one of whose keywords occurs in the lower-cased condition, so that two
  conditions that differ in case only get the same emoji; it returns the fallback emoji when
  no keyword occurs; \<open>Patchy rain possible\<close> gets the rain emoji; and the eight emoji are
  different strings.
\<close>

theorem getWeatherEmoji_first_match:
  "getWeatherEmoji (Present c) = Inr (firstMatch emojiTable defaultEmoji (toLowerCase c))
   \<and> (toLowerCase c = toLowerCase c' \<longrightarrow>
        getWeatherEmoji (Present c) = getWeatherEmoji (Present c'))
   \<and> (\<not> list_ex (\<lambda>(keywords, emoji). list_ex (includes (toLowerCase c)) keywords) emojiTable \<longrightarrow>
        getWeatherEmoji (Present c) = Inr defaultEmoji)
   \<and> getWeatherEmoji (Present (js ''Patchy rain possible'')) = Inr rainEmoji
   \<and> distinct [sunnyEmoji, cloudEmoji, rainEmoji, snowEmoji, thunderEmoji, fogEmoji, windEmoji,
                defaultEmoji]"
proof (intro conjI impI)
  show "getWeatherEmoji (Present c) = Inr (firstMatch emojiTable defaultEmoji (toLowerCase c))"
    by (rule getWeatherEmoji_firstMatch)
  show "getWeatherEmoji (Present c) = getWeatherEmoji (Present c')"
    if "toLowerCase c = toLowerCase c'"
    using that by (simp add: getWeatherEmoji_firstMatch)
  show "getWeatherEmoji (Present c) = Inr defaultEmoji"
    if "\<not> list_ex (\<lambda>(keywords, emoji). list_ex (includes (toLowerCase c)) keywords) emojiTable"
    using that by (simp add: getWeatherEmoji_firstMatch firstMatch_fallback)
  show "getWeatherEmoji (Present (js ''Patchy rain possible'')) = Inr rainEmoji"
    by (simp add: getWeatherEmoji_def Let_def lower_defs js_def)
  show "distinct [sunnyEmoji, cloudEmoji, rainEmoji, snowEmoji, thunderEmoji, fogEmoji, windEmoji,
                defaultEmoji]"
    by (simp add: emoji_defs)
qed

lemma overcast_lower: "toLowerCase (js ''OVERCAST'') = toLowerCase (js ''Overcast'')"
  by (simp add: lower_defs js_def)

lemma overcast_no_keyword:
  "\<not> list_ex (\<lambda>(keywords, emoji). list_ex (includes (toLowerCase (js ''OVERCAST''))) keywords)
       emojiTable"
  by (simp add: emojiTable_def lower_defs js_def)

theorem getWeatherEmoji_first_match_witness:
  "toLowerCase (js ''OVERCAST'') = toLowerCase (js ''Overcast'')
   \<and> getWeatherEmoji (Present (js ''OVERCAST'')) = getWeatherEmoji (Present (js ''Overcast''))
   \<and> \<not> list_ex (\<lambda>(keywords, emoji). list_ex (includes (toLowerCase (js ''OVERCAST''))) keywords)
         emojiTable
   \<and> getWeatherEmoji (Present (js ''OVERCAST'')) = Inr defaultEmoji"
  using overcast_lower overcast_no_keyword
    getWeatherEmoji_first_match [of "js ''OVERCAST''" "js ''Overcast''"]
  by blast

text \<open>The fragment for a response that has every property, with its parts set apart.\<close>

lemma formatWeatherDisplay_present:
  \<open>formatWeatherDisplay (weatherResponse t c n k) =
     Inr ((js ''\<newline>        <div class="'' @ js (weatherLocation CSS_CLASSES)
            @ js ''">\<newline>            '' @ [0xF8FF, 0xFC, 0xE5, 0xE7] @ js '' <strong>'')
          @ (n @ js '', '' @ k)
          @ (js ''</strong>\<newline>        </div>\<newline>        <div class="''
             @ js (weatherTemperature CSS_CLASSES) @ js ''">\<newline>            '')
          @ numberToString (Math_round (Finite t))
          @ ([0xAC, 0x221E] @ js ''C\<newline>        </div>\<newline>        <div class="''
             @ js (weatherCondition CSS_CLASSES) @ js ''">\<newline>            '')
          @ firstMatch emojiTable defaultEmoji (toLowerCase c)
          @ js '' '' @ c
          @ js ''\<newline>        </div>\<newline>    '')\<close>
  by (simp add: formatWeatherDisplay_def weatherResponse_def getWeatherEmoji_firstMatch Let_def)

lemma formatWeatherDisplay_shape:
  "\<exists>A B C D. formatWeatherDisplay (weatherResponse t c n k) =
     Inr (A @ (n @ js '', '' @ k) @ B @ numberToString (Math_round (Finite t)) @ C
          @ firstMatch emojiTable defaultEmoji (toLowerCase c) @ js '' '' @ c @ D)"
  unfolding formatWeatherDisplay_present by (intro exI) (rule refl)

lemma fragment_parts:
  assumes "formatWeatherDisplay (weatherResponse t c n k) = Inr fragment"
  shows "includes fragment (numberToString (Math_round (Finite t)))
    \<and> includes fragment (n @ js '', '' @ k)
    \<and> includes fragment c
    \<and> includes fragment (firstMatch emojiTable defaultEmoji (toLowerCase c))"
proof -
  let ?X = "n @ js '', '' @ k" and ?Y = "numberToString (Math_round (Finite t))"
    and ?I = "firstMatch emojiTable defaultEmoji (toLowerCase c)"
  from formatWeatherDisplay_shape [of t c n k] assms
  obtain A B C D where f: "fragment = A @ ?X @ B @ ?Y @ C @ ?I @ js '' '' @ c @ D"
    by auto
  have "includes fragment ?X" by (rule includes_mid [OF f])
  moreover have "fragment = (A @ ?X @ B) @ ?Y @ (C @ ?I @ js '' '' @ c @ D)"
    using f by simp
  then have "includes fragment ?Y" by (rule includes_mid)
  moreover have "fragment = (A @ ?X @ B @ ?Y @ C) @ ?I @ (js '' '' @ c @ D)"
    using f by simp
  then have "includes fragment ?I" by (rule includes_mid)
  moreover have "fragment = (A @ ?X @ B @ ?Y @ C @ ?I @ js '' '') @ c @ D"
    using f by simp
  then have "includes fragment c" by (rule includes_mid)
  ultimately show ?thesis by simp
qed

lemma fragment_exists:
  "\<exists>fragment icon. formatWeatherDisplay (weatherResponse t c n k) = Inr fragment
     \<and> getWeatherEmoji (Present c) = Inr icon
     \<and> includes fragment (numberToString (Math_round (Finite t)))
     \<and> includes fragment (n @ js '', '' @ k)
     \<and> includes fragment c
     \<and> includes fragment icon"
proof -
  obtain fragment where f: "formatWeatherDisplay (weatherResponse t c n k) = Inr fragment"
    using formatWeatherDisplay_present by blast
  from fragment_parts [OF f] f getWeatherEmoji_firstMatch [of c] show ?thesis by blast
qed

lemma Math_round_Finite: "Math_round (Finite t) = Finite (of_int \<lfloor>t + 1 / 2\<rfloor>)"
  by (simp add: Math_round_def)

lemma round_nearest: "\<bar>real_of_int \<lfloor>t + 1 / 2\<rfloor> - t\<bar> \<le> 1 / 2"
  by linarith

text \<open>
  The doubles nearest to 21.6 and to 18.4 are not these numbers themselves; they round to
  22 and to 18 as well.
\<close>

lemma Math_round_doubles:
  "Math_round (Finite (6079859496950170 / 281474976710656)) = Finite 22
   \<and> Math_round (Finite (5179139571476070 / 281474976710656)) = Finite 18"
  by (simp add: Math_round_def)

lemma paris_rounded: "numberToString (Math_round (Finite (184 / 10))) = js ''18''"
  by (simp add: Math_round_def numberToString_def integerToString_def decimalDigits.simps js_def)

lemma sunny_icon: "firstMatch emojiTable defaultEmoji (toLowerCase (js ''Sunny'')) = sunnyEmoji"
  by (simp add: emojiTable_def lower_defs js_def)

lemma paris_fragment:
  "\<exists>fragment. formatWeatherDisplay parisResponse = Inr fragment
     \<and> includes fragment (js ''18'') \<and> includes fragment (js ''Paris, France'')
     \<and> includes fragment sunnyEmoji"
proof -
  obtain fragment where f: "formatWeatherDisplay
      (weatherResponse (184 / 10) (js ''Sunny'') (js ''Paris'') (js ''France'')) = Inr fragment"
    using formatWeatherDisplay_present by blast
  note parts = fragment_parts [OF f]
  have "includes fragment (js ''18'')"
    using parts [THEN conjunct1] by (simp only: paris_rounded)
  moreover have "js ''Paris'' @ js '', '' @ js ''France'' = js ''Paris, France''"
    by (simp add: js_def)
  then have "includes fragment (js ''Paris, France'')"
    using parts [THEN conjunct2, THEN conjunct1] by (simp only:)
  moreover have "includes fragment sunnyEmoji"
    using parts [THEN conjunct2, THEN conjunct2, THEN conjunct2] by (simp only: sunny_icon)
  ultimately show ?thesis
    using f unfolding parisResponse_def by blast
qed

text \<open>
  In the source file, the unit that follows the temperature is written with the code units
  U+00AC and U+221E before the \<open>C\<close>; the degree sign U+00B0 does not occur in the fragment.
\<close>

lemma paris_fragment_unit:
  "\<exists>fragment. formatWeatherDisplay parisResponse = Inr fragment
     \<and> includes fragment (js ''18'' @ [0xAC, 0x221E] @ js ''C'')
     \<and> 0xB0 \<notin> set fragment"
  by (simp add: parisResponse_def formatWeatherDisplay_present Math_round_def numberToString_def
      integerToString_def decimalDigits.simps emojiTable_def lower_defs sunnyEmoji_def
      CSS_CLASSES_def js_def)

text \<open>
  Claim C6, as the code has it. The response of the claim has \<open>temp_c\<close> and \<open>condition\<close> at
  its top level, beside \<open>location\<close>. The code reads them from \<open>weatherData.current\<close>, which
  that object does not have: \<open>formatWeatherDisplay\<close> throws a TypeError on it, and no fragment
  is produced.
\<close>

theorem formatWeatherDisplay_flat_response_counterexample:
  "formatWeatherDisplay
     \<lparr>current = Absent,
      location = Present \<lparr>name = Present (js ''Paris''), country = Present (js ''France'')\<rparr>\<rparr>
   = Inl (undefinedRead ''temp_c'')"
  by (simp add: formatWeatherDisplay_def)

text \<open>
  Claim C6, amended. For every response with the properties \<open>current.temp_c\<close>,
  \<open>current.condition.text\<close>, \<open>location.name\<close> and \<open>location.country\<close>,
  \<open>formatWeatherDisplay\<close> produces a fragment that contains the temperature rounded to the
  nearest integer (upwards from a half) as printed by the host, the name and the country
  joined as \<open>name, country\<close>, the condition text, and the emoji that \<open>getWeatherEmoji\<close> selects;
  21.6 is rounded to 22; and the response with 18.4, \<open>Sunny\<close>, \<open>Paris\<close> and \<open>France\<close> in these
  places yields a fragment with \<open>18\<close>, \<open>Paris, France\<close> and the emoji of the sunny row.
\<close>

theorem formatWeatherDisplay_fragment:
  "(\<exists>fragment icon. formatWeatherDisplay (weatherResponse t c n k) = Inr fragment
       \<and> getWeatherEmoji (Present c) = Inr icon
       \<and> includes fragment (numberToString (Math_round (Finite t)))
       \<and> includes fragment (n @ js '', '' @ k)
       \<and> includes fragment c
       \<and> includes fragment icon)
   \<and> Math_round (Finite t) = Finite (of_int \<lfloor>t + 1 / 2\<rfloor>)
   \<and> \<bar>of_int \<lfloor>t + 1 / 2\<rfloor> - t\<bar> \<le> 1 / 2
   \<and> Math_round (Finite (216 / 10)) = Finite 22
   \<and> (\<exists>fragment. formatWeatherDisplay parisResponse = Inr fragment
         \<and> includes fragment (js ''18'') \<and> includes fragment (js ''Paris, France'')
         \<and> includes fragment sunnyEmoji)"
proof (intro conjI)
  show "\<exists>fragment icon. formatWeatherDisplay (weatherResponse t c n k) = Inr fragment
       \<and> getWeatherEmoji (Present c) = Inr icon
       \<and> includes fragment (numberToString (Math_round (Finite t)))
       \<and> includes fragment (n @ js '', '' @ k)
       \<and> includes fragment c
       \<and> includes fragment icon"
    by (rule fragment_exists)
  show "Math_round (Finite t) = Finite (of_int \<lfloor>t + 1 / 2\<rfloor>)"
    by (rule Math_round_Finite)
  show "\<bar>of_int \<lfloor>t + 1 / 2\<rfloor> - t\<bar> \<le> 1 / 2"
    by (rule round_nearest)
  show "Math_round (Finite (216 / 10)) = Finite 22"
    by (simp add: Math_round_def)
  show "\<exists>fragment. formatWeatherDisplay parisResponse = Inr fragment
         \<and> includes fragment (js ''18'') \<and> includes fragment (js ''Paris, France'')
         \<and> includes fragment sunnyEmoji"
    by (rule paris_fragment)
qed

theorem formatWeatherDisplay_fragment_witness:
  "\<exists>fragment icon.
     formatWeatherDisplay
       (weatherResponse (- 5 / 2) (js ''Light snow'') (js ''Tromso'') (js ''Norway''))
       = Inr fragment
     \<and> getWeatherEmoji (Present (js ''Light snow'')) = Inr icon
     \<and> includes fragment (numberToString (Math_round (Finite (- 5 / 2))))
     \<and> includes fragment (js ''Tromso'' @ js '', '' @ js ''Norway'')
     \<and> includes fragment (js ''Light snow'')
     \<and> includes fragment icon"
  by (rule formatWeatherDisplay_fragment [THEN conjunct1])

text \<open>In the witness a half is rounded upwards, and the snow row is the first to match.\<close>

lemma witness_values:
  "numberToString (Math_round (Finite (- 5 / 2))) = js ''-2''
   \<and> getWeatherEmoji (Present (js ''Light snow'')) = Inr snowEmoji"
  by (simp add: Math_round_def numberToString_def integerToString_def decimalDigits.simps
      getWeatherEmoji_def Let_def lower_defs js_def)

section \<open>The presentation controller\<close>

lemmas dom_defs = getElementById_def console_error_def console_log_def setTimeout_def
  elementTarget_def gsap_to_def gsap_set_def gsap_killTweensOf_def CSS_CLASSES_def DOM_ELEMENTS_def
lemmas class_defs = classList_add_def classList_remove_def
lemmas page_defs = readyPage_def loadedPage_def blankElement_def
lemmas ctl_defs = getWeatherInformation_def displayMessage_def showWeatherResult_def
  animateWeatherResult_def animateButtonLoading_def fetchWeatherData_def fetch_def

text \<open>
  The cleanup of \<open>getWeatherInformation\<close>: with a search button, it completes, and leaves
  the button enabled, without the loading class, and no loader tween alive.
\<close>

lemma cleanup_effect:
  assumes "searchButtonElement st = Some b"
    and "block [onGlobal searchButtonElement (nullWrite ''disabled'') (\<lambda>el. el\<lparr>disabled := False\<rparr>),
                animateButtonLoading False] st = (r, st')"
  shows "r = Inr () \<and> \<not> disabled (elements st' b) \<and> \<not> loadingIndicatorRunning st' b"
  using assms
  by (auto simp: animateButtonLoading_def loadingIndicatorRunning_def action_defs dom_defs
      class_defs list_ex_iff)

lemma tryCatchFinally_final:
  assumes "tryCatchFinally body handler cleanup st = (r, st')"
  obtains r1 st1 r2 st2 r3 where "body st = (r1, st1)"
    and "(case r1 of Inl e \<Rightarrow> handler e st1 | Inr u \<Rightarrow> (Inr u, st1)) = (r2, st2)"
    and "cleanup st2 = (r3, st')"
  using assms
  by (auto simp: tryCatchFinally_def Let_def split: prod.splits sum.splits)

text \<open>
  Whatever the body and the handler do, as long as they leave the cached button reference
  alone, the statement ends in the state that the cleanup produces.
\<close>

lemma tryCatchFinally_cleanup:
  assumes body: "\<And>s. searchButtonElement (snd (body s)) = searchButtonElement s"
    and handler: "\<And>e s. searchButtonElement (snd (handler e s)) = searchButtonElement s"
    and b: "searchButtonElement st = Some b"
    and t: "tryCatchFinally body handler
              (block [onGlobal searchButtonElement (nullWrite ''disabled'')
                        (\<lambda>el. el\<lparr>disabled := False\<rparr>),
                      animateButtonLoading False]) st = (r, st')"
  shows "\<not> disabled (elements st' b) \<and> \<not> loadingIndicatorRunning st' b"
proof -
  from t obtain r1 st1 r2 st2 r3 where 1: "body st = (r1, st1)"
    and 2: "(case r1 of Inl e \<Rightarrow> handler e st1 | Inr u \<Rightarrow> (Inr u, st1)) = (r2, st2)"
    and 3: "block [onGlobal searchButtonElement (nullWrite ''disabled'')
                     (\<lambda>el. el\<lparr>disabled := False\<rparr>),
                   animateButtonLoading False] st2 = (r3, st')"
    by (rule tryCatchFinally_final)
  have "searchButtonElement st1 = Some b"
    using body [of st] 1 b by simp
  moreover have "searchButtonElement st2 = searchButtonElement st1"
  proof (cases r1)
    case (Inl e)
    with 2 handler [of e st1] show ?thesis by simp
  next
    case (Inr u)
    with 2 show ?thesis by simp
  qed
  ultimately have "searchButtonElement st2 = Some b" by simp
  then show ?thesis using 3 cleanup_effect by blast
qed

lemma andThen_button:
  assumes "\<And>s. searchButtonElement (snd (m s)) = searchButtonElement s"
    and "\<And>x s. searchButtonElement (snd (f x s)) = searchButtonElement s"
  shows "searchButtonElement (snd (andThen m f s)) = searchButtonElement s"
proof -
  obtain r s1 where m: "m s = (r, s1)" by (cases "m s")
  with assms(1) [of s] have "searchButtonElement s1 = searchButtonElement s" by simp
  with m assms(2) show ?thesis by (cases r) (simp_all add: andThen_def)
qed

lemma onGlobal_button:
  "searchButtonElement (snd (onGlobal var err f s)) = searchButtonElement s"
  by (simp add: action_defs split: option.split)

lemma gsap_to_button: "searchButtonElement (snd (gsap_to t n s)) = searchButtonElement s"
  by (simp add: gsap_to_def modify_def)

lemma setTimeout_button: "searchButtonElement (snd (setTimeout c n s)) = searchButtonElement s"
  by (simp add: setTimeout_def modify_def)

lemma console_error_button:
  "searchButtonElement (snd (console_error m e s)) = searchButtonElement s"
  by (simp add: console_error_def modify_def)

lemma fromResult_button: "searchButtonElement (snd (fromResult r s)) = searchButtonElement s"
  by (simp add: fromResult_def)

lemma animateButtonLoading_button:
  "searchButtonElement (snd (animateButtonLoading l s)) = searchButtonElement s"
  by (simp add: animateButtonLoading_def action_defs dom_defs split: option.split)

lemma animateWeatherResult_button:
  "searchButtonElement (snd (animateWeatherResult s)) = searchButtonElement s"
  by (simp add: animateWeatherResult_def action_defs dom_defs Let_def split: option.split)

lemma displayMessage_button:
  "searchButtonElement (snd (displayMessage msg ty s)) = searchButtonElement s"
  by (simp add: displayMessage_def animateWeatherResult_def action_defs dom_defs Let_def
      split: option.split)

lemma showWeatherResult_button:
  "searchButtonElement (snd (showWeatherResult s)) = searchButtonElement s"
  by (simp add: showWeatherResult_def animateWeatherResult_button action_defs)

lemma fetchWeatherData_button:
  "searchButtonElement (snd (fetchWeatherData net loc s)) = searchButtonElement s"
  by (simp add: fetchWeatherData_def fetch_def action_defs split: sum.split)

lemmas button_kept = onGlobal_button animateButtonLoading_button gsap_to_button setTimeout_button
  console_error_button fromResult_button displayMessage_button showWeatherResult_button
  fetchWeatherData_button

text \<open>
  The first two statements of the \<open>try\<close> block put the page into the loading state: the
  button is disabled and the loading indicator runs.
\<close>

lemma loading_entered:
  assumes "searchButtonElement st = Some b"
  shows "disabled (elements (snd (block [onGlobal searchButtonElement (nullWrite ''disabled'')
                                           (\<lambda>el. el\<lparr>disabled := True\<rparr>),
                                         animateButtonLoading True] st)) b)
         \<and> loadingIndicatorRunning (snd (block [onGlobal searchButtonElement (nullWrite ''disabled'')
                                                  (\<lambda>el. el\<lparr>disabled := True\<rparr>),
                                                animateButtonLoading True] st)) b"
  using assms
  by (simp add: animateButtonLoading_def loadingIndicatorRunning_def action_defs dom_defs
      class_defs)

text \<open>
  Claim C3. When the text of the location field is empty after trimming,
  \<open>getWeatherInformation\<close> does what \<open>displayMessage\<close> does with the warning text, whatever
  the network would answer: no request is handed to \<open>fetch\<close>; and with the result container
  in the page, it returns normally with the warning as the container's text and the
  warning class on it.
\<close>

theorem blank_input_never_fetches:
  assumes "locationInputElement st = Some i"
    and "trim (value (elements st i)) = []"
  shows "getWeatherInformation net st = displayMessage warningText ''warning'' st
         \<and> requests (snd (getWeatherInformation net st)) = requests st
         \<and> (weatherResultElement st = Some w \<and> ''weather-result'' \<in> document st \<longrightarrow>
              fst (getWeatherInformation net st) = Inr ()
              \<and> content (elements (snd (getWeatherInformation net st)) w)
                  = TextContent warningText
              \<and> warningMessage CSS_CLASSES
                  \<in> set (classList (elements (snd (getWeatherInformation net st)) w)))"
proof -
  have eq: "getWeatherInformation net st = displayMessage warningText ''warning'' st"
    using assms by (simp add: getWeatherInformation_def validateLocationInput_def Let_def)
  have "requests (snd (displayMessage warningText ''warning'' st)) = requests st"
    by (simp add: displayMessage_def animateWeatherResult_def action_defs dom_defs class_defs
        Let_def split: option.split)
  moreover have "weatherResultElement st = Some w \<and> ''weather-result'' \<in> document st \<longrightarrow>
      fst (displayMessage warningText ''warning'' st) = Inr ()
      \<and> content (elements (snd (displayMessage warningText ''warning'' st)) w)
          = TextContent warningText
      \<and> warningMessage CSS_CLASSES
          \<in> set (classList (elements (snd (displayMessage warningText ''warning'' st)) w))"
    by (simp add: displayMessage_def animateWeatherResult_def action_defs dom_defs class_defs
        Let_def)
  ultimately show ?thesis using eq by simp
qed

lemma blank_field:
  "locationInputElement (readyPage (js ''   '')) = Some ''location-input''
   \<and> trim (value (elements (readyPage (js ''   '')) ''location-input'')) = []
   \<and> weatherResultElement (readyPage (js ''   '')) = Some ''weather-result''
   \<and> ''weather-result'' \<in> document (readyPage (js ''   ''))"
  by (simp add: page_defs trim_defs js_def)

theorem blank_input_never_fetches_witness:
  "locationInputElement (readyPage (js ''   '')) = Some ''location-input''
   \<and> trim (value (elements (readyPage (js ''   '')) ''location-input'')) = []
   \<and> weatherResultElement (readyPage (js ''   '')) = Some ''weather-result''
   \<and> ''weather-result'' \<in> document (readyPage (js ''   ''))
   \<and> requests (snd (getWeatherInformation netReport (readyPage (js ''   ''))))
       = requests (readyPage (js ''   ''))
   \<and> fst (getWeatherInformation netReport (readyPage (js ''   ''))) = Inr ()
   \<and> content (elements (snd (getWeatherInformation netReport (readyPage (js ''   ''))))
        ''weather-result'') = TextContent warningText"
  using blank_field
    blank_input_never_fetches [where st = "readyPage (js ''   '')" and i = "''location-input''"
      and w = "''weather-result''" and net = netReport]
  by blast

text \<open>
  Claim C4. Let the page have its location field and its search button, and let the text
  of the field pass the validator, so that the lookup enters the loading state. Then,
  whatever the network answers and whatever is thrown on the way (a URIError, a rejected
  request, a status outside 200 to 299, a body that does not parse, a TypeError of the
  formatter or of a DOM access), \<open>getWeatherInformation\<close> leaves the search button enabled
  and the loading indicator stopped.
\<close>

theorem trigger_reenabled_on_every_exit:
  assumes "locationInputElement st = Some i"
    and "searchButtonElement st = Some b"
    and "ToBoolean (validateLocationInput (trim (value (elements st i))))"
  shows "\<not> disabled (elements (snd (getWeatherInformation net st)) b)
         \<and> \<not> loadingIndicatorRunning (snd (getWeatherInformation net st)) b"
proof -
  let ?loc = "trim (value (elements st i))"
  let ?body = "block [onGlobal searchButtonElement (nullWrite ''disabled'')
                        (\<lambda>el. el\<lparr>disabled := True\<rparr>),
                      animateButtonLoading True,
                      gsap_to (Selector (searchCard DOM_ELEMENTS)) 3,
                      andThen (fetchWeatherData net ?loc) (\<lambda>data.
                      andThen (fromResult (formatWeatherDisplay data)) (\<lambda>formattedWeatherHtml.
                        block [onGlobal weatherResultElement (nullWrite ''innerHTML'')
                                 (\<lambda>el. el\<lparr>content := InnerHTML formattedWeatherHtml\<rparr>),
                               showWeatherResult,
                               setTimeout AnimateWeatherElements 300]))]"
  let ?handler = "\<lambda>error.
                 block [console_error (js ''Weather fetch error:'') (Some error),
                        displayMessage (errorPrefix @ message error) ''error'',
                        gsap_to (Selector (searchCard DOM_ELEMENTS)) 5]"
  let ?cleanup = "block [onGlobal searchButtonElement (nullWrite ''disabled'')
                           (\<lambda>el. el\<lparr>disabled := False\<rparr>),
                         animateButtonLoading False]"
  have eq: "getWeatherInformation net st = tryCatchFinally ?body ?handler ?cleanup st"
    using assms by (simp add: getWeatherInformation_def Let_def)
  have body: "\<And>s. searchButtonElement (snd (?body s)) = searchButtonElement s"
    by (simp only: block.simps) (intro andThen_button; simp add: button_kept returns_def)
  have handler: "\<And>e s. searchButtonElement (snd (?handler e s)) = searchButtonElement s"
    by (simp only: block.simps) (intro andThen_button; simp add: button_kept returns_def)
  obtain r st' where t: "tryCatchFinally ?body ?handler ?cleanup st = (r, st')"
    by (cases "tryCatchFinally ?body ?handler ?cleanup st")
  from body handler assms(2) t
  have "\<not> disabled (elements st' b) \<and> \<not> loadingIndicatorRunning st' b"
    by (rule tryCatchFinally_cleanup)
  with eq t show ?thesis by simp
qed

lemma paris_field:
  "locationInputElement (readyPage (js ''Paris'')) = Some ''location-input''"
  "searchButtonElement (readyPage (js ''Paris'')) = Some ''search-button''"
  "ToBoolean (validateLocationInput
     (trim (value (elements (readyPage (js ''Paris'')) ''location-input''))))"
  by (simp_all add: page_defs validateLocationInput_def trim_defs js_def)

theorem trigger_reenabled_on_every_exit_witness:
  "locationInputElement (readyPage (js ''Paris'')) = Some ''location-input''
   \<and> searchButtonElement (readyPage (js ''Paris'')) = Some ''search-button''
   \<and> ToBoolean (validateLocationInput
        (trim (value (elements (readyPage (js ''Paris'')) ''location-input''))))
   \<and> \<not> disabled (elements (snd (getWeatherInformation netReport (readyPage (js ''Paris''))))
          ''search-button'')
   \<and> \<not> loadingIndicatorRunning (snd (getWeatherInformation netReport (readyPage (js ''Paris''))))
          ''search-button''
   \<and> \<not> disabled (elements (snd (getWeatherInformation netBadRequest (readyPage (js ''Paris''))))
          ''search-button'')
   \<and> \<not> loadingIndicatorRunning
          (snd (getWeatherInformation netBadRequest (readyPage (js ''Paris'')))) ''search-button''
   \<and> \<not> disabled (elements (snd (getWeatherInformation netNoWeather (readyPage (js ''Paris''))))
          ''search-button'')
   \<and> \<not> loadingIndicatorRunning
          (snd (getWeatherInformation netNoWeather (readyPage (js ''Paris'')))) ''search-button''"
  using paris_field
    trigger_reenabled_on_every_exit [OF paris_field, of netReport]
    trigger_reenabled_on_every_exit [OF paris_field, of netBadRequest]
    trigger_reenabled_on_every_exit [OF paris_field, of netNoWeather]
  by blast

text \<open>
  The three lookups of the witness leave by three different ways: the first shows the
  fragment, the second the message of the refused request, the third the message of the
  TypeError that the formatter throws.
\<close>

lemma paris_trimmed: "trim (js ''Paris'') = js ''Paris''"
  by (simp add: trim_defs js_def)

lemma paris_validated: "ToBoolean (validateLocationInput (js ''Paris''))"
  by (simp add: validateLocationInput_def trim_defs js_def)

lemma lookup_shows_fragment:
  "fst (getWeatherInformation netReport (readyPage (js ''Paris''))) = Inr ()
   \<and> Inr (content (elements (snd (getWeatherInformation netReport (readyPage (js ''Paris''))))
             ''weather-result''))
       = map_sum id InnerHTML (formatWeatherDisplay parisResponse)
   \<and> requests (snd (getWeatherInformation netReport (readyPage (js ''Paris''))))
       = [js ''https://api.weatherapi.com/v1/current.json?key=77cd39c3c35e4552b93173121250909&q=Paris&aqi=no'']"
  by (simp add: ctl_defs page_defs netReport_def report_def ok_def action_defs dom_defs class_defs
      Let_def paris_trimmed paris_validated paris_url parisResponse_def
      formatWeatherDisplay_present)

lemma lookup_shows_status:
  "fst (getWeatherInformation netBadRequest (readyPage (js ''Paris''))) = Inr ()
   \<and> content (elements (snd (getWeatherInformation netBadRequest (readyPage (js ''Paris''))))
        ''weather-result'')
       = TextContent (errorPrefix @ js ''Weather data not available ('' @ js ''400'' @ js '')'')
   \<and> errorMessage CSS_CLASSES
       \<in> set (classList (elements
            (snd (getWeatherInformation netBadRequest (readyPage (js ''Paris''))))
            ''weather-result''))"
  by (simp add: ctl_defs page_defs netBadRequest_def ok_def action_defs dom_defs class_defs
      Let_def paris_trimmed paris_validated paris_url numberToString_of_nat badRequest_digits)
     (simp add: badRequest_def)

lemma lookup_shows_type_error:
  "fst (getWeatherInformation netNoWeather (readyPage (js ''Paris''))) = Inr ()
   \<and> content (elements (snd (getWeatherInformation netNoWeather (readyPage (js ''Paris''))))
        ''weather-result'')
       = TextContent (errorPrefix @ message (undefinedRead ''temp_c''))"
  by (simp add: ctl_defs page_defs netNoWeather_def noWeather_def ok_def action_defs dom_defs
      class_defs Let_def paris_trimmed paris_validated paris_url formatWeatherDisplay_def)

section \<open>Initialization\<close>

lemmas init_defs = initializeWeatherApp_def getElementByIdSafely_def initializePageAnimations_def
  animateFloatingElements_def animateWeatherIcon_def setupInputAnimations_def
  setupHoverAnimations_def

lemma addEventListener_mem: "(ev, h) \<in> set (listeners (addEventListener ev h el))"
  by (simp add: addEventListener_def)

lemma addEventListener_mono:
  "x \<in> set (listeners el) \<Longrightarrow> x \<in> set (listeners (addEventListener ev h el))"
  by (simp add: addEventListener_def)

lemma initializeWeatherApp_abort:
  assumes m: "''location-input'' \<notin> document st \<or> ''search-button'' \<notin> document st
      \<or> ''weather-result'' \<notin> document st"
  shows "fst (initializeWeatherApp st) = Inr ()
      \<and> last (console (snd (initializeWeatherApp st))) =
          ConsoleError (js ''Required DOM elements not found. App initialization failed.'') None
      \<and> elements (snd (initializeWeatherApp st)) = elements st
      \<and> tweens (snd (initializeWeatherApp st)) = tweens st
      \<and> timers (snd (initializeWeatherApp st)) = timers st"
proof (cases "''location-input'' \<in> document st")
  case i: True
  show ?thesis
  proof (cases "''search-button'' \<in> document st")
    case b: True
    with i m have "''weather-result'' \<notin> document st" by simp
    with i b show ?thesis by (simp add: init_defs action_defs dom_defs Let_def)
  next
    case b: False
    with i show ?thesis by (simp add: init_defs action_defs dom_defs Let_def)
  qed
next
  case i: False
  then show ?thesis by (simp add: init_defs action_defs dom_defs Let_def)
qed

lemma initializeWeatherApp_complete:
  assumes a: "''location-input'' \<in> document st" "''search-button'' \<in> document st"
      "''weather-result'' \<in> document st"
  shows "fst (initializeWeatherApp st) = Inr ()
      \<and> locationInputElement (snd (initializeWeatherApp st)) = Some ''location-input''
      \<and> searchButtonElement (snd (initializeWeatherApp st)) = Some ''search-button''
      \<and> weatherResultElement (snd (initializeWeatherApp st)) = Some ''weather-result''
      \<and> (''click'', HandleSearchButtonClick)
          \<in> set (listeners (elements (snd (initializeWeatherApp st)) ''search-button''))
      \<and> (''keypress'', HandleLocationInputKeyPress)
          \<in> set (listeners (elements (snd (initializeWeatherApp st)) ''location-input''))
      \<and> last (console (snd (initializeWeatherApp st))) =
          ConsoleLog (js ''Modern weather app initialized successfully with GSAP animations'')"
  using a
  by (simp add: init_defs action_defs dom_defs Let_def addEventListener_mem addEventListener_mono)

text \<open>
  Claim C9. \<open>initializeWeatherApp\<close> looks the text field, the submit control and the result
  container up. If one of them is not in the document, it logs the diagnostic and returns,
  and no element (so no listener), no tween and no timer has changed. If the three are
  there, it completes: the references are cached, the click listener is on the button
  and the keypress listener on the field, and the success line is logged.
\<close>

theorem initializeWeatherApp_checks_elements:
  "(\<not> {''location-input'', ''search-button'', ''weather-result''} \<subseteq> document st \<longrightarrow>
      fst (initializeWeatherApp st) = Inr ()
      \<and> last (console (snd (initializeWeatherApp st))) =
          ConsoleError (js ''Required DOM elements not found. App initialization failed.'') None
      \<and> elements (snd (initializeWeatherApp st)) = elements st
      \<and> tweens (snd (initializeWeatherApp st)) = tweens st
      \<and> timers (snd (initializeWeatherApp st)) = timers st)
   \<and> ({''location-input'', ''search-button'', ''weather-result''} \<subseteq> document st \<longrightarrow>
      fst (initializeWeatherApp st) = Inr ()
      \<and> locationInputElement (snd (initializeWeatherApp st)) = Some ''location-input''
      \<and> searchButtonElement (snd (initializeWeatherApp st)) = Some ''search-button''
      \<and> weatherResultElement (snd (initializeWeatherApp st)) = Some ''weather-result''
      \<and> (''click'', HandleSearchButtonClick)
          \<in> set (listeners (elements (snd (initializeWeatherApp st)) ''search-button''))
      \<and> (''keypress'', HandleLocationInputKeyPress)
          \<in> set (listeners (elements (snd (initializeWeatherApp st)) ''location-input''))
      \<and> last (console (snd (initializeWeatherApp st))) =
          ConsoleLog (js ''Modern weather app initialized successfully with GSAP animations''))"
proof (rule conjI; rule impI)
  assume "\<not> {''location-input'', ''search-button'', ''weather-result''} \<subseteq> document st"
  then have "''location-input'' \<notin> document st \<or> ''search-button'' \<notin> document st
      \<or> ''weather-result'' \<notin> document st" by auto
  then show "fst (initializeWeatherApp st) = Inr ()
      \<and> last (console (snd (initializeWeatherApp st))) =
          ConsoleError (js ''Required DOM elements not found. App initialization failed.'') None
      \<and> elements (snd (initializeWeatherApp st)) = elements st
      \<and> tweens (snd (initializeWeatherApp st)) = tweens st
      \<and> timers (snd (initializeWeatherApp st)) = timers st"
    by (rule initializeWeatherApp_abort)
next
  assume "{''location-input'', ''search-button'', ''weather-result''} \<subseteq> document st"
  then have "''location-input'' \<in> document st" "''search-button'' \<in> document st"
      "''weather-result'' \<in> document st" by auto
  then show "fst (initializeWeatherApp st) = Inr ()
      \<and> locationInputElement (snd (initializeWeatherApp st)) = Some ''location-input''
      \<and> searchButtonElement (snd (initializeWeatherApp st)) = Some ''search-button''
      \<and> weatherResultElement (snd (initializeWeatherApp st)) = Some ''weather-result''
      \<and> (''click'', HandleSearchButtonClick)
          \<in> set (listeners (elements (snd (initializeWeatherApp st)) ''search-button''))
      \<and> (''keypress'', HandleLocationInputKeyPress)
          \<in> set (listeners (elements (snd (initializeWeatherApp st)) ''location-input''))
      \<and> last (console (snd (initializeWeatherApp st))) =
          ConsoleLog (js ''Modern weather app initialized successfully with GSAP animations'')"
    by (rule initializeWeatherApp_complete)
qed

lemma incomplete_document:
  "\<not> {''location-input'', ''search-button'', ''weather-result''}
       \<subseteq> document (loadedPage {''location-input'', ''search-button''})"
  by (simp add: loadedPage_def)

lemma complete_document:
  "{''location-input'', ''search-button'', ''weather-result''}
     \<subseteq> document (loadedPage {''location-input'', ''search-button'', ''weather-result''})"
  by (simp add: loadedPage_def)

theorem initializeWeatherApp_checks_elements_witness:
  "\<not> {''location-input'', ''search-button'', ''weather-result''}
       \<subseteq> document (loadedPage {''location-input'', ''search-button''})
   \<and> last (console (snd (initializeWeatherApp (loadedPage {''location-input'', ''search-button''}))))
       = ConsoleError (js ''Required DOM elements not found. App initialization failed.'') None
   \<and> elements (snd (initializeWeatherApp (loadedPage {''location-input'', ''search-button''})))
       = elements (loadedPage {''location-input'', ''search-button''})
   \<and> tweens (snd (initializeWeatherApp (loadedPage {''location-input'', ''search-button''})))
       = tweens (loadedPage {''location-input'', ''search-button''})
   \<and> {''location-input'', ''search-button'', ''weather-result''}
       \<subseteq> document (loadedPage {''location-input'', ''search-button'', ''weather-result''})
   \<and> (''click'', HandleSearchButtonClick)
       \<in> set (listeners (elements
            (snd (initializeWeatherApp
                   (loadedPage {''location-input'', ''search-button'', ''weather-result''})))
            ''search-button''))
   \<and> (''keypress'', HandleLocationInputKeyPress)
       \<in> set (listeners (elements
            (snd (initializeWeatherApp
                   (loadedPage {''location-input'', ''search-button'', ''weather-result''})))
            ''location-input''))"
  using incomplete_document complete_document
    initializeWeatherApp_checks_elements [of "loadedPage {''location-input'', ''search-button''}"]
    initializeWeatherApp_checks_elements
      [of "loadedPage {''location-input'', ''search-button'', ''weather-result''}"]
  by blast

text \<open>On the page without the result container, both diagnostics are in the console.\<close>

lemma abort_console:
  "console (snd (initializeWeatherApp (loadedPage {''location-input'', ''search-button''}))) =
     [ConsoleError (js ''Element with ID '' @ [0x27] @ js ''weather-result'' @ [0x27]
                    @ js '' not found'') None,
      ConsoleError (js ''Required DOM elements not found. App initialization failed.'') None]"
  by (simp add: init_defs action_defs dom_defs Let_def loadedPage_def)

end
